theory Spec2Isabelle
  imports Main
begin

section \<open>Values exchanged with the two ledgers\<close>

text \<open>
  The handlers of \<^verbatim>\<open>up.ts\<close> talk to two remote ledgers. Everything they throw is a
  value of \<open>error\<close>; a JavaScript \<^verbatim>\<open>Date\<close> is its time value in milliseconds, or
  the invalid date, whose comparisons are all false. Strings are lists of code units.
\<close>

datatype error =
    HttpError string
  | ApiKeyRequired
  | TypeError
  | SyntaxError

datatype jsdate = Date int | InvalidDate

fun date_lt :: "jsdate \<Rightarrow> jsdate \<Rightarrow> bool" where
  "date_lt (Date a) (Date b) = (a < b)"
| "date_lt _ _ = False"

text \<open>Truthiness of a \<^verbatim>\<open>string | null | undefined\<close>: present and not empty.\<close>

fun truthy :: "string option \<Rightarrow> bool" where
  "truthy None = False"
| "truthy (Some s) = (s \<noteq> [])"

datatype conn = Primary | Secondary

text \<open>
  The query parameter \<^verbatim>\<open>account\<close> selects a connection; anything but the two
  literals is refused by both handlers.
\<close>

definition selector :: "string option \<Rightarrow> conn option" where
  "selector account =
     (if account = Some ''primary'' then Some Primary
      else if account = Some ''secondary'' then Some Secondary
      else None)"

record TransactionAmount =
  currencyCode :: string
  amountValue :: string
  valueInBaseUnits :: int

text \<open>Class \<^verbatim>\<open>Transaction\<close> of the source ledger (field \<^verbatim>\<open>id\<close> is \<open>txId\<close>).\<close>

record UpTransaction =
  txId :: string
  txAccountId :: string
  createdAt :: jsdate
  isSettled :: bool
  description :: string
  amount :: TransactionAmount
  message :: "string option"
  foreignAmount :: "TransactionAmount option"
  transferAccount :: "string option"

datatype UpAccountType = SAVER | TRANSACTIONAL | HOME_LOAN
datatype AccountOwnershipType = INDIVIDUAL | JOINT

record UpAccount =
  acId :: string
  acType :: UpAccountType
  acName :: string
  ownershipType :: AccountOwnershipType

record Webhook =
  whId :: string
  whUrl :: string
  whDescription :: string
  whCreatedAt :: jsdate
  secretKey :: "string option"

record WebhookPage =
  pageData :: "Webhook list"
  linksNext :: "string option"

text \<open>An object sent as JSON: its own properties, in insertion order.\<close>

datatype jv = JNum int | JStr string | JNull

type_synonym jobject = "(string \<times> jv) list"

datatype YnabAccountType =
    Checking | Savings | Cash | CreditCard | LineOfCredit | OtherAsset
  | OtherLiability | Mortgage | AutoLoan | StudentLoan | PersonalLoan
  | MedicalDebt | OtherDebt

fun toString_AccountType :: "YnabAccountType \<Rightarrow> string" where
  "toString_AccountType Checking = ''checking''"
| "toString_AccountType Savings = ''savings''"
| "toString_AccountType Cash = ''cash''"
| "toString_AccountType CreditCard = ''creditCard''"
| "toString_AccountType LineOfCredit = ''lineOfCredit''"
| "toString_AccountType OtherAsset = ''otherAsset''"
| "toString_AccountType OtherLiability = ''otherLiability''"
| "toString_AccountType Mortgage = ''mortgage''"
| "toString_AccountType AutoLoan = ''autoLoan''"
| "toString_AccountType StudentLoan = ''studentLoan''"
| "toString_AccountType PersonalLoan = ''personalLoan''"
| "toString_AccountType MedicalDebt = ''medicalDebt''"
| "toString_AccountType OtherDebt = ''otherDebt''"

text \<open>Types \<^verbatim>\<open>TransactionIds\<close> and \<^verbatim>\<open>Account\<close> of the destination ledger.\<close>

record TransactionIds =
  idsId :: string
  transfer_transaction_id :: "string option"

record YnabAccount =
  yaId :: string
  payeeId :: string

text \<open>What the destination ledger answers: one listed transaction, one listed account.\<close>

record YTransactionJson =
  tjId :: string
  tjImportId :: "string option"
  tjTransferTransactionId :: "string option"

record YTransactionsData =
  dataTransactions :: "YTransactionJson list"
  txServerKnowledge :: int

record YAccountJson =
  ajId :: string
  ajNote :: "string option"
  ajTransferPayeeId :: string

record YAccountsData =
  dataAccounts :: "YAccountJson list"
  acServerKnowledge :: int

section \<open>Requests, the remote ledgers and the state of the process\<close>

text \<open>
  Every HTTP request a handler sends is recorded, in order. The remote ledgers are not
  part of the program: each answer is an arbitrary function of the requests sent so far
  and of the request itself, and may be a failure.
\<close>

datatype call =
    UpGetTransaction conn string
  | UpGetAccount conn string
  | UpGetPage conn string
  | UpPostWebhook conn string string
  | UpDeleteWebhook conn string
  | YGetTransactions string int
  | YGetAccounts int
  | YPostAccount jobject
  | YPostTransaction jobject
  | YPutTransaction string jobject

record remote =
  answerUpTransaction :: "call list \<Rightarrow> call \<Rightarrow> error + UpTransaction"
  answerUpAccount :: "call list \<Rightarrow> call \<Rightarrow> error + UpAccount"
  answerUpPage :: "call list \<Rightarrow> call \<Rightarrow> error + WebhookPage"
  answerNewWebhook :: "call list \<Rightarrow> call \<Rightarrow> error + Webhook"
  answerUpDelete :: "call list \<Rightarrow> call \<Rightarrow> error + unit"
  answerTransactions :: "call list \<Rightarrow> call \<Rightarrow> error + YTransactionsData"
  answerAccounts :: "call list \<Rightarrow> call \<Rightarrow> error + YAccountsData"
  answerNewAccount :: "call list \<Rightarrow> call \<Rightarrow> error + YAccountJson"
  answerNewTransaction :: "call list \<Rightarrow> call \<Rightarrow> error + YTransactionJson"
  answerPut :: "call list \<Rightarrow> call \<Rightarrow> error + unit"

text \<open>
  What the JavaScript platform supplies: the HMAC-SHA256 hex digest (key, then body), the
  parse of the webhook body, the two date formats used, the clock, the two operations of
  a \<^verbatim>\<open>Date\<close> in local time that \<^verbatim>\<open>todayOffset\<close> uses, and the construction of
  the callback URL. \<open>addLocalDays t n\<close> is the time value after
  \<^verbatim>\<open>setDate(getDate() + n)\<close> and \<open>startOfLocalDay t\<close> the one after
  \<^verbatim>\<open>setHours(0, 0, 0, 0)\<close>: both follow the time zone of the process and its
  daylight-saving rules, which nothing here fixes.
\<close>

record WebhookEvent =
  eventType :: string
  eventTransactionId :: "string option"

record platform =
  hmacSha256Hex :: "string \<Rightarrow> string \<Rightarrow> string"
  JSON_parse :: "string \<Rightarrow> error + WebhookEvent"
  toTimeString :: "jsdate \<Rightarrow> string"
  toLocaleDateString :: "jsdate \<Rightarrow> string"
  now :: int
  addLocalDays :: "int \<Rightarrow> int \<Rightarrow> int"
  startOfLocalDay :: "int \<Rightarrow> int"
  urlWithAccount :: "string \<Rightarrow> string \<Rightarrow> error + string"

text \<open>Class \<^verbatim>\<open>YnabCache\<close>: a map with the sync cursor.\<close>

record 'v YnabCache =
  entries :: "string \<rightharpoonup> 'v"
  lastKnowledgeOfServer :: int
  sinceDate :: "jsdate option"

definition emptyCache :: "'v YnabCache" where
  "emptyCache = \<lparr>entries = Map.empty, lastKnowledgeOfServer = 0, sinceDate = None\<rparr>"

record sysstate =
  accounts :: "YnabAccount YnabCache"
  transactions :: "TransactionIds YnabCache"
  trace :: "call list"

definition initialState :: sysstate where
  "initialState = \<lparr>accounts = emptyCache, transactions = emptyCache, trace = []\<rparr>"

text \<open>
  A computation reads and updates the state and either returns or throws; what it did
  to the caches and which requests it sent remain when it throws.
\<close>

type_synonym 'a M = "sysstate \<Rightarrow> (error + 'a) \<times> sysstate"

definition returnM :: "'a \<Rightarrow> 'a M" where
  "returnM a s = (Inr a, s)"

definition throwM :: "error \<Rightarrow> 'a M" where
  "throwM e s = (Inl e, s)"

definition bindM :: "'a M \<Rightarrow> ('a \<Rightarrow> 'b M) \<Rightarrow> 'b M" where
  "bindM m f s = (case m s of (Inl e, s') \<Rightarrow> (Inl e, s') | (Inr a, s') \<Rightarrow> f a s')"

text \<open>Sending a request: it is recorded, and the remote side answers.\<close>

definition perform :: "(call list \<Rightarrow> call \<Rightarrow> error + 'a) \<Rightarrow> call \<Rightarrow> 'a M" where
  "perform answer c s = (answer (trace s) c, s\<lparr>trace := trace s @ [c]\<rparr>)"

text \<open>A call whose promise is not awaited: the request is sent, its outcome is dropped.\<close>

definition notAwaited :: "'a M \<Rightarrow> unit M" where
  "notAwaited m s = (Inr (), snd (m s))"

section \<open>The source-ledger connection (class \<^verbatim>\<open>Api\<close> of the bank side)\<close>

record UpApi =
  apiKey :: string
  webhookSecret :: string

text \<open>A constructor argument that is \<^verbatim>\<open>undefined\<close> takes the default \<^verbatim>\<open>""\<close>.\<close>

fun orEmpty :: "string option \<Rightarrow> string" where
  "orEmpty None = []"
| "orEmpty (Some s) = s"

text \<open>The two connections, built from the environment of the process.\<close>

fun upApis :: "(string \<rightharpoonup> string) \<Rightarrow> conn \<Rightarrow> UpApi" where
  "upApis env Primary =
     \<lparr>apiKey = orEmpty (env ''UP_PRIMARY_TOKEN''),
      webhookSecret = orEmpty (env ''UP_PRIMARY_WEBHOOK'')\<rparr>"
| "upApis env Secondary =
     \<lparr>apiKey = orEmpty (env ''UP_SECONDARY_TOKEN''),
      webhookSecret = orEmpty (env ''UP_SECONDARY_WEBHOOK'')\<rparr>"

text \<open>
  \<^verbatim>\<open>fetchUrl\<close> reads the getter \<^verbatim>\<open>headers\<close> before it sends anything, and the
  getter throws when the key is empty.
\<close>

definition upFetch :: "UpApi \<Rightarrow> (call list \<Rightarrow> call \<Rightarrow> error + 'a) \<Rightarrow> call \<Rightarrow> 'a M" where
  "upFetch api answer c =
     (if apiKey api = [] then throwM ApiKeyRequired else perform answer c)"

definition getTransaction :: "remote \<Rightarrow> conn \<Rightarrow> UpApi \<Rightarrow> string \<Rightarrow> UpTransaction M" where
  "getTransaction rm account api i = upFetch api (answerUpTransaction rm) (UpGetTransaction account i)"

definition getUpAccount :: "remote \<Rightarrow> conn \<Rightarrow> UpApi \<Rightarrow> string \<Rightarrow> UpAccount M" where
  "getUpAccount rm account api i = upFetch api (answerUpAccount rm) (UpGetAccount account i)"

definition validateWebhookSignature :: "platform \<Rightarrow> UpApi \<Rightarrow> string \<Rightarrow> string option \<Rightarrow> bool" where
  "validateWebhookSignature pf api body signature =
     (case signature of
        None \<Rightarrow> False
      | Some sg \<Rightarrow>
          if sg = [] \<or> webhookSecret api = [] then False
          else hmacSha256Hex pf (webhookSecret api) body = sg)"

section \<open>The destination-ledger connection and its two caches\<close>

text \<open>\<^verbatim>\<open>removeEmptyProperties\<close>: drop what is null, undefined or the empty string.\<close>

definition removeEmptyProperties :: "jobject \<Rightarrow> jobject" where
  "removeEmptyProperties d = filter (\<lambda>(k, v). v \<noteq> JNull \<and> v \<noteq> JStr []) d"

text \<open>
  \<^verbatim>\<open>todayOffset\<close>: the clock moved by a number of calendar days in local time,
  then set to the local start of that day when \<open>startOfDay\<close> is set.
\<close>

definition todayOffset :: "platform \<Rightarrow> int \<Rightarrow> bool \<Rightarrow> jsdate" where
  "todayOffset pf days startOfDay =
     (let date = addLocalDays pf (now pf) days in
      if startOfDay then Date (startOfLocalDay pf date) else Date date)"

definition cacheSet :: "string \<Rightarrow> 'v \<Rightarrow> 'v YnabCache \<Rightarrow> 'v YnabCache" where
  "cacheSet k v cache = cache\<lparr>entries := (entries cache)(k \<mapsto> v)\<rparr>"

definition idsOf :: "YTransactionJson \<Rightarrow> TransactionIds" where
  "idsOf j = \<lparr>idsId = tjId j, transfer_transaction_id = tjTransferTransactionId j\<rparr>"

text \<open>The loop of a transaction refresh: every listed transaction that has an import id.\<close>

fun storeTransactions :: "YTransactionJson list \<Rightarrow> TransactionIds YnabCache \<Rightarrow> TransactionIds YnabCache" where
  "storeTransactions [] cache = cache"
| "storeTransactions (j # js) cache =
     (case tjImportId j of
        None \<Rightarrow> storeTransactions js cache
      | Some k \<Rightarrow>
          if k = [] then storeTransactions js cache
          else storeTransactions js (cacheSet k (idsOf j) cache))"

definition getTransactionFromImportId ::
  "platform \<Rightarrow> remote \<Rightarrow> string \<Rightarrow> jsdate option \<Rightarrow> (TransactionIds option) M" where
  "getTransactionFromImportId pf rm importId transactionDate s =
     (let cache = transactions s in
      if entries cache importId \<noteq> None then (Inr (entries cache importId), s)
      else
        let syncFrom0 = (case sinceDate cache of None \<Rightarrow> todayOffset pf (- 4) True | Some d \<Rightarrow> d);
            pushed = (case transactionDate of None \<Rightarrow> None
                      | Some d \<Rightarrow> if date_lt d syncFrom0 then Some d else None);
            syncFrom = (case pushed of None \<Rightarrow> syncFrom0 | Some d \<Rightarrow> d);
            lastKnowledge = (case pushed of None \<Rightarrow> lastKnowledgeOfServer cache | Some d \<Rightarrow> 0);
            c = YGetTransactions (toLocaleDateString pf syncFrom) lastKnowledge;
            s1 = s\<lparr>trace := trace s @ [c]\<rparr>
        in case answerTransactions rm (trace s) c of
             Inl e \<Rightarrow> (Inl e, s1)
           | Inr d \<Rightarrow>
               let cache' = (storeTransactions (dataTransactions d) cache)
                              \<lparr>lastKnowledgeOfServer := txServerKnowledge d,
                               sinceDate := Some syncFrom\<rparr>
               in (Inr (entries cache' importId), s1\<lparr>transactions := cache'\<rparr>))"

text \<open>
  The refresh suspends at \<^verbatim>\<open>await this.get\<close> (line 494), after it has read the
  cursor and sent its query and before it writes the cursor back; other invocations of
  the same process may run in between. The two halves: what runs up to the await, with
  what the refresh keeps in its local variables, and what runs once the answer is there,
  on the cache as it is by then.
\<close>

record pendingRefresh =
  pendKey :: string
  pendSyncFrom :: jsdate
  pendCall :: call

definition refreshBegin ::
  "platform \<Rightarrow> string \<Rightarrow> jsdate option \<Rightarrow> sysstate \<Rightarrow> pendingRefresh option \<times> sysstate" where
  "refreshBegin pf importId transactionDate s =
     (let cache = transactions s in
      if entries cache importId \<noteq> None then (None, s)
      else
        let syncFrom0 = (case sinceDate cache of None \<Rightarrow> todayOffset pf (- 4) True | Some d \<Rightarrow> d);
            pushed = (case transactionDate of None \<Rightarrow> None
                      | Some d \<Rightarrow> if date_lt d syncFrom0 then Some d else None);
            syncFrom = (case pushed of None \<Rightarrow> syncFrom0 | Some d \<Rightarrow> d);
            lastKnowledge = (case pushed of None \<Rightarrow> lastKnowledgeOfServer cache | Some d \<Rightarrow> 0);
            c = YGetTransactions (toLocaleDateString pf syncFrom) lastKnowledge
        in (Some \<lparr>pendKey = importId, pendSyncFrom = syncFrom, pendCall = c\<rparr>,
            s\<lparr>trace := trace s @ [c]\<rparr>))"

definition refreshEnd ::
  "pendingRefresh \<Rightarrow> error + YTransactionsData \<Rightarrow> (TransactionIds option) M" where
  "refreshEnd p answer s =
     (case answer of
        Inl e \<Rightarrow> (Inl e, s)
      | Inr d \<Rightarrow>
          let cache' = (storeTransactions (dataTransactions d) (transactions s))
                         \<lparr>lastKnowledgeOfServer := txServerKnowledge d,
                          sinceDate := Some (pendSyncFrom p)\<rparr>
          in (Inr (entries cache' (pendKey p)), s\<lparr>transactions := cache'\<rparr>))"

text \<open>
  The back-link of an account note, \<^verbatim>\<open>/upId:([a-f0-9-]{36}\b)/i\<close>: the tag in any
  case, 36 characters that are hexadecimal digits or dashes, then a word boundary. The
  leftmost match wins and its group is the key.
\<close>

definition isWordChar :: "char \<Rightarrow> bool" where
  "isWordChar c = (c \<in> set ''abcdefghijklmnopqrstuvwxyzABCDEFGHIJKLMNOPQRSTUVWXYZ0123456789_'')"

definition isHexDash :: "char \<Rightarrow> bool" where
  "isHexDash c = (c \<in> set ''abcdefABCDEF0123456789-'')"

definition matchUpIdAt :: "string \<Rightarrow> string option" where
  "matchUpIdAt s =
     (let tag = take 5 s; grp = take 36 (drop 5 s); rest = drop 41 s in
      if list_all2 (\<lambda>c alts. c \<in> set alts) tag [''uU'', ''pP'', ''iI'', ''dD'', '':'']
         \<and> length grp = 36 \<and> list_all isHexDash grp
         \<and> (isWordChar (last grp) \<noteq> (case rest of [] \<Rightarrow> False | c # _ \<Rightarrow> isWordChar c))
      then Some grp else None)"

fun matchUpId :: "string \<Rightarrow> string option" where
  "matchUpId [] = None"
| "matchUpId (c # cs) =
     (case matchUpIdAt (c # cs) of Some g \<Rightarrow> Some g | None \<Rightarrow> matchUpId cs)"

fun storeAccounts :: "YAccountJson list \<Rightarrow> YnabAccount YnabCache \<Rightarrow> YnabAccount YnabCache" where
  "storeAccounts [] cache = cache"
| "storeAccounts (a # as) cache =
     (case (case ajNote a of None \<Rightarrow> None | Some n \<Rightarrow> matchUpId n) of
        None \<Rightarrow> storeAccounts as cache
      | Some k \<Rightarrow>
          storeAccounts as
            (cacheSet k \<lparr>yaId = ajId a, payeeId = ajTransferPayeeId a\<rparr> cache))"

definition getAccount :: "remote \<Rightarrow> string \<Rightarrow> (YnabAccount option) M" where
  "getAccount rm upAccountId s =
     (let cache = accounts s in
      if entries cache upAccountId \<noteq> None then (Inr (entries cache upAccountId), s)
      else
        let c = YGetAccounts (lastKnowledgeOfServer cache);
            s1 = s\<lparr>trace := trace s @ [c]\<rparr>
        in case answerAccounts rm (trace s) c of
             Inl e \<Rightarrow> (Inl e, s1)
           | Inr d \<Rightarrow>
               let cache' = (storeAccounts (dataAccounts d) cache)
                              \<lparr>lastKnowledgeOfServer := acServerKnowledge d\<rparr>
               in (Inr (entries cache' upAccountId), s1\<lparr>accounts := cache'\<rparr>))"

definition createAccount ::
  "remote \<Rightarrow> string \<Rightarrow> YnabAccountType \<Rightarrow> string \<Rightarrow> int \<Rightarrow> YnabAccount M" where
  "createAccount rm name type upAccountId balance =
     (let note = ''upId:'' @ upAccountId;
          payload = [(''name'', JStr (take 50 name)),
                     (''type'', JStr (toString_AccountType type)),
                     (''balance'', JNum balance),
                     (''note'', JStr note)]
      in bindM (perform (answerNewAccount rm) (YPostAccount payload))
           (\<lambda>json s.
              let account = \<lparr>yaId = ajId json, payeeId = ajTransferPayeeId json\<rparr>
              in (Inr account, s\<lparr>accounts := cacheSet upAccountId account (accounts s)\<rparr>)))"

definition createTransaction :: "remote \<Rightarrow> jobject \<Rightarrow> TransactionIds M" where
  "createTransaction rm transaction =
     bindM (perform (answerNewTransaction rm) (YPostTransaction transaction))
       (\<lambda>json s.
          let transactionCache = idsOf json
          in (Inr transactionCache,
              case tjImportId json of
                None \<Rightarrow> s
              | Some import_id \<Rightarrow>
                  if import_id = [] then s
                  else s\<lparr>transactions := cacheSet import_id transactionCache (transactions s)\<rparr>))"

definition updateTransaction :: "remote \<Rightarrow> string \<Rightarrow> jobject \<Rightarrow> unit M" where
  "updateTransaction rm i transaction =
     perform (answerPut rm) (YPutTransaction i (removeEmptyProperties transaction))"

section \<open>The webhook handler\<close>

text \<open>
  The calls of \<^verbatim>\<open>context.log\<close> and \<^verbatim>\<open>console.log\<close> are left out: they change
  neither what a handler returns nor what it sends. Amounts in base units are integers;
  the product by 10 is exact below \<open>2^53\<close>, where a JavaScript number is.
\<close>

text \<open>
  \<^verbatim>\<open>String.prototype.replaceAll\<close> with a string pattern: the occurrences are found
  from the left and do not overlap; an empty pattern matches before every code unit and
  at the end.
\<close>

fun startsWith :: "string \<Rightarrow> string \<Rightarrow> bool" where
  "startsWith s [] = True"
| "startsWith [] (p # ps) = False"
| "startsWith (c # cs) (p # ps) = (c = p \<and> startsWith cs ps)"

function replaceFrom :: "string \<Rightarrow> string \<Rightarrow> string \<Rightarrow> string" where
  "replaceFrom [] pat rep = []"
| "replaceFrom (c # cs) pat rep =
     (if pat \<noteq> [] \<and> startsWith (c # cs) pat
      then rep @ replaceFrom (drop (length pat) (c # cs)) pat rep
      else c # replaceFrom cs pat rep)"
  by pat_completeness auto
termination
  by (relation "measure (\<lambda>(s, pat, rep). length s)") auto

definition replaceAll :: "string \<Rightarrow> string \<Rightarrow> string \<Rightarrow> string" where
  "replaceAll s pat rep =
     (if pat = [] then rep @ concat (map (\<lambda>c. c # rep) s) else replaceFrom s pat rep)"

definition importIdOf :: "string \<Rightarrow> string" where
  "importIdOf upTransactionId = ''up:'' @ replaceAll upTransactionId ''-'' []"

definition createYnabAccount :: "remote \<Rightarrow> UpAccount \<Rightarrow> YnabAccount M" where
  "createYnabAccount rm upAccount =
     (let type = (if acType upAccount = TRANSACTIONAL then Checking else Savings);
          name = take 50 (''Up: '' @ acName upAccount @ '' ('' @ acId upAccount @ '')'')
      in createAccount rm name type (acId upAccount) 0)"

definition catchM :: "'a M \<Rightarrow> (error \<Rightarrow> 'a M) \<Rightarrow> 'a M" where
  "catchM m h s = (case m s of (Inl e, s') \<Rightarrow> h e s' | (Inr a, s') \<Rightarrow> (Inr a, s'))"

definition getYnabTransferAccountPayeeId ::
  "(string \<rightharpoonup> string) \<Rightarrow> remote \<Rightarrow> string \<Rightarrow> string M" where
  "getYnabTransferAccountPayeeId env rm upTransferAccountId =
     bindM (getAccount rm upTransferAccountId)
       (\<lambda>found. case found of
          Some ynabAccount \<Rightarrow> returnM (payeeId ynabAccount)
        | None \<Rightarrow>
            bindM (catchM (getUpAccount rm Primary (upApis env Primary) upTransferAccountId)
                     (\<lambda>e. getUpAccount rm Secondary (upApis env Secondary) upTransferAccountId))
              (\<lambda>upAccount. bindM (createYnabAccount rm upAccount)
                 (\<lambda>ynabAccount. returnM (payeeId ynabAccount))))"

definition clearedOf :: "UpTransaction \<Rightarrow> jv" where
  "clearedOf t = JStr (if isSettled t then ''cleared'' else ''uncleared'')"

definition memoOf :: "platform \<Rightarrow> UpTransaction \<Rightarrow> string" where
  "memoOf pf t =
     (let memo0 = take 5 (toTimeString pf (createdAt t));
          memo1 = (case message t of
                     None \<Rightarrow> memo0
                   | Some m \<Rightarrow> if m = [] then memo0 else memo0 @ '': '' @ m)
      in case foreignAmount t of
           None \<Rightarrow> memo1
         | Some fa \<Rightarrow> memo1 @ '' ('' @ currencyCode fa @ '' '' @ amountValue fa @ '')'')"

text \<open>The object sent when the import id is already known: two properties.\<close>

definition updateFields :: "UpTransaction \<Rightarrow> jobject" where
  "updateFields t =
     [(''amount'', JNum (valueInBaseUnits (amount t) * 10)),
      (''cleared'', clearedOf t)]"

definition newFields :: "platform \<Rightarrow> UpTransaction \<Rightarrow> YnabAccount \<Rightarrow> jobject" where
  "newFields pf t ynabAccount =
     [(''amount'', JNum (valueInBaseUnits (amount t) * 10)),
      (''cleared'', clearedOf t),
      (''account_id'', JStr (yaId ynabAccount)),
      (''date'', JStr (toLocaleDateString pf (createdAt t))),
      (''import_id'', JStr (importIdOf (txId t))),
      (''memo'', JStr (memoOf pf t)),
      (''payee_name'', JStr (description t))]"

text \<open>
  Lines 250 to 256 of the handler: the transaction is known, so its amount and clearing
  state are sent. The update is not awaited.
\<close>

definition updateKnown :: "remote \<Rightarrow> UpTransaction \<Rightarrow> TransactionIds \<Rightarrow> TransactionIds M" where
  "updateKnown rm upTransaction ynabTransactionId =
     bindM (notAwaited (updateTransaction rm (idsId ynabTransactionId)
                          (updateFields upTransaction)))
       (\<lambda>u. returnM ynabTransactionId)"

text \<open>
  Lines 257 to 287: the transaction is new. Its account is looked up or created, a
  transfer gets the payee of the other account, and the transaction is created.
\<close>

definition createNew ::
  "platform \<Rightarrow> (string \<rightharpoonup> string) \<Rightarrow> remote \<Rightarrow> UpTransaction \<Rightarrow> UpAccount \<Rightarrow> TransactionIds M" where
  "createNew pf env rm upTransaction upAccount =
     bindM (getAccount rm (acId upAccount))
       (\<lambda>cached.
          bindM (case cached of
                   Some a \<Rightarrow> returnM a
                 | None \<Rightarrow> createYnabAccount rm upAccount)
            (\<lambda>ynabAccount.
               bindM (case transferAccount upTransaction of
                        None \<Rightarrow> returnM (newFields pf upTransaction ynabAccount)
                      | Some ta \<Rightarrow>
                          if ta = [] then returnM (newFields pf upTransaction ynabAccount)
                          else bindM (getYnabTransferAccountPayeeId env rm ta)
                                 (\<lambda>p. returnM (newFields pf upTransaction ynabAccount
                                                 @ [(''payee_id'', JStr p)])))
                 (\<lambda>ynabTransaction. createTransaction rm ynabTransaction)))"

text \<open>
  Lines 248 to 287 of the handler: the destination transaction of a source transaction,
  found by its import id and updated, or created.
\<close>

definition resolve ::
  "platform \<Rightarrow> (string \<rightharpoonup> string) \<Rightarrow> remote \<Rightarrow> UpTransaction \<Rightarrow> UpAccount \<Rightarrow> TransactionIds M" where
  "resolve pf env rm upTransaction upAccount =
     bindM (getTransactionFromImportId pf rm (importIdOf (txId upTransaction))
              (Some (createdAt upTransaction)))
       (\<lambda>found. case found of
          Some ynabTransactionId \<Rightarrow> updateKnown rm upTransaction ynabTransactionId
        | None \<Rightarrow> createNew pf env rm upTransaction upAccount)"

text \<open>Lines 288 to 291: clearing the other side of a transfer once this side is settled.\<close>

definition reconcile ::
  "platform \<Rightarrow> (string \<rightharpoonup> string) \<Rightarrow> remote \<Rightarrow> UpTransaction \<Rightarrow> UpAccount \<Rightarrow> TransactionIds M" where
  "reconcile pf env rm upTransaction upAccount =
     bindM (resolve pf env rm upTransaction upAccount)
       (\<lambda>ynabTransactionId.
          case transfer_transaction_id ynabTransactionId of
            None \<Rightarrow> returnM ynabTransactionId
          | Some tt \<Rightarrow>
              if tt \<noteq> [] \<and> isSettled upTransaction
              then bindM (updateTransaction rm tt [(''cleared'', JStr ''cleared'')])
                     (\<lambda>u. returnM ynabTransactionId)
              else returnM ynabTransactionId)"

record HttpRequest =
  reqBody :: string
  queryAccount :: "string option"
  queryReplaceExisting :: "string option"
  signatureHeader :: "string option"

record HttpResponse =
  status :: nat
  respBody :: "string option"

text \<open>
  The handler, with the branch it took: refused with 403, returned early by one of the
  two skip rules, reconciled, or nothing to do. \<open>webhook\<close> below turns the branch into
  the response.
\<close>

datatype outcome = Rejected string | Skipped | Reconciled TransactionIds | NoAction

definition webhookBranch ::
  "platform \<Rightarrow> (string \<rightharpoonup> string) \<Rightarrow> remote \<Rightarrow> HttpRequest \<Rightarrow> outcome M" where
  "webhookBranch pf env rm request =
     (case selector (queryAccount request) of
        None \<Rightarrow> returnM (Rejected ''Invalid account'')
      | Some account \<Rightarrow>
          (let upApi = upApis env account in
           if \<not> validateWebhookSignature pf upApi (reqBody request) (signatureHeader request)
           then returnM (Rejected ''Invalid signature'')
           else (case JSON_parse pf (reqBody request) of
             Inl e \<Rightarrow> throwM e
           | Inr json \<Rightarrow>
               (if eventType json = ''TRANSACTION_CREATED'' \<or> eventType json = ''TRANSACTION_SETTLED''
                then (case eventTransactionId json of
                  None \<Rightarrow> throwM TypeError
                | Some tid \<Rightarrow>
                    bindM (getTransaction rm account upApi tid)
                      (\<lambda>upTransaction.
                         if truthy (transferAccount upTransaction)
                            \<and> valueInBaseUnits (amount upTransaction) > 0
                         then returnM Skipped
                         else bindM (getUpAccount rm account upApi (txAccountId upTransaction))
                                (\<lambda>upAccount.
                                   if ownershipType upAccount = JOINT \<and> account = Secondary
                                   then returnM Skipped
                                   else bindM (reconcile pf env rm upTransaction upAccount)
                                          (\<lambda>ids. returnM (Reconciled ids)))))
                else returnM NoAction))))"

fun responseOf :: "outcome \<Rightarrow> HttpResponse" where
  "responseOf (Rejected b) = \<lparr>status = 403, respBody = Some b\<rparr>"
| "responseOf Skipped = \<lparr>status = 200, respBody = None\<rparr>"
| "responseOf (Reconciled ids) = \<lparr>status = 200, respBody = Some []\<rparr>"
| "responseOf NoAction = \<lparr>status = 200, respBody = Some []\<rparr>"

definition webhook ::
  "platform \<Rightarrow> (string \<rightharpoonup> string) \<Rightarrow> remote \<Rightarrow> HttpRequest \<Rightarrow> HttpResponse M" where
  "webhook pf env rm request =
     bindM (webhookBranch pf env rm request) (\<lambda>b. returnM (responseOf b))"

section \<open>The provisioning handler\<close>













section \<open>Observations on a run\<close>

text \<open>The requests a run added to the record, and those that went to the destination ledger.\<close>

definition newCalls :: "sysstate \<Rightarrow> sysstate \<Rightarrow> call list" where
  "newCalls s s' = drop (length (trace s)) (trace s')"

fun isYnabCall :: "call \<Rightarrow> bool" where
  "isYnabCall (YGetTransactions d k) = True"
| "isYnabCall (YGetAccounts k) = True"
| "isYnabCall (YPostAccount p) = True"
| "isYnabCall (YPostTransaction p) = True"
| "isYnabCall (YPutTransaction i p) = True"
| "isYnabCall c = False"

fun isCreateTransaction :: "call \<Rightarrow> bool" where
  "isCreateTransaction (YPostTransaction p) = True"
| "isCreateTransaction c = False"

text \<open>
  Relations between the state before a computation and the state after it, whatever it
  returns or throws. Two are used: the requests added all have a given property, and
  the start of the sync window has not moved later.
\<close>

definition stepsM :: "(sysstate \<Rightarrow> sysstate \<Rightarrow> bool) \<Rightarrow> 'a M \<Rightarrow> bool" where
  "stepsM R m = (\<forall>s r s'. m s = (r, s') \<longrightarrow> R s s')"

definition sends :: "(call \<Rightarrow> bool) \<Rightarrow> sysstate \<Rightarrow> sysstate \<Rightarrow> bool" where
  "sends P s s' = (\<exists>cs. trace s' = trace s @ cs \<and> list_all P cs)"

fun notLater :: "jsdate option \<Rightarrow> jsdate option \<Rightarrow> bool" where
  "notLater None w' = True"
| "notLater (Some (Date w)) (Some (Date w')) = (w' \<le> w)"
| "notLater (Some InvalidDate) (Some InvalidDate) = True"
| "notLater w w' = False"

definition window :: "sysstate \<Rightarrow> sysstate \<Rightarrow> bool" where
  "window s s' =
     (notLater (sinceDate (transactions s)) (sinceDate (transactions s'))
      \<and> sinceDate (accounts s') = sinceDate (accounts s))"

text \<open>What a relation must allow for the handler to keep it.\<close>

definition upheld :: "(sysstate \<Rightarrow> sysstate \<Rightarrow> bool) \<Rightarrow> (call \<Rightarrow> bool) \<Rightarrow> bool" where
  "upheld R allowed =
     (reflp R \<and> transp R
      \<and> (\<forall>s c. allowed c \<longrightarrow> R s (s\<lparr>trace := trace s @ [c]\<rparr>))
      \<and> (\<forall>pf rm k d. stepsM R (getTransactionFromImportId pf rm k d))
      \<and> (\<forall>rm k. stepsM R (getAccount rm k))
      \<and> (\<forall>rm n t u b. stepsM R (createAccount rm n t u b))
      \<and> (\<forall>rm p. stepsM R (createTransaction rm p)))"

fun isPut :: "call \<Rightarrow> bool" where
  "isPut (YPutTransaction i p) = True"
| "isPut c = False"

text \<open>An update that only clears: its object has the single property \<open>cleared\<close>.\<close>

fun isClearOnly :: "call \<Rightarrow> bool" where
  "isClearOnly (YPutTransaction i p) = (map fst p = [''cleared''])"
| "isClearOnly c = False"

text \<open>
  A request that passes the checks of the handler and announces a created or settled
  transaction \<open>tid\<close> on the connection \<open>account\<close>, whose API key is set.
\<close>

definition transactionEvent ::
  "platform \<Rightarrow> (string \<rightharpoonup> string) \<Rightarrow> HttpRequest \<Rightarrow> conn \<Rightarrow> string \<Rightarrow> bool" where
  "transactionEvent pf env request account tid =
     (selector (queryAccount request) = Some account
      \<and> validateWebhookSignature pf (upApis env account) (reqBody request)
            (signatureHeader request)
      \<and> apiKey (upApis env account) \<noteq> []
      \<and> (case JSON_parse pf (reqBody request) of
            Inl e \<Rightarrow> False
          | Inr json \<Rightarrow>
              (eventType json = ''TRANSACTION_CREATED'' \<or> eventType json = ''TRANSACTION_SETTLED'')
              \<and> eventTransactionId json = Some tid))"

text \<open>
  Invocations that do not overlap: a sequence of lookups in the transaction cache, each
  with its own clock, remote answers, key and date, and a sequence of webhook
  deliveries, each run to its end in the state the one before left, whether that one
  returned or threw.
\<close>

fun refreshes ::
  "(platform \<times> remote \<times> string \<times> jsdate option) list \<Rightarrow> sysstate \<Rightarrow> sysstate" where
  "refreshes [] s = s"
| "refreshes ((pf, rm, k, d) # xs) s =
     refreshes xs (snd (getTransactionFromImportId pf rm k d s))"

fun deliveries ::
  "(platform \<times> (string \<rightharpoonup> string) \<times> remote \<times> HttpRequest) list \<Rightarrow> sysstate \<Rightarrow> sysstate" where
  "deliveries [] s = s"
| "deliveries ((pf, env, rm, request) # ds) s =
     deliveries ds (snd (webhook pf env rm request s))"

text \<open>
  A destination ledger that adopts the import id: whenever it answers a creation, the
  transaction it returns carries the import id that was sent.
\<close>

definition echoesImportId :: "remote \<Rightarrow> bool" where
  "echoesImportId rm =
     (\<forall>tr p j k. answerNewTransaction rm tr (YPostTransaction p) = Inr j
                  \<and> map_of p ''import_id'' = Some (JStr k)
                \<longrightarrow> tjImportId j = Some k)"

text \<open>
  The requests a delivery sends to the destination ledger for a transaction it already
  knows: the update of amount and clearing state, then the clearing of the counterpart
  when the known identity has one and the source transaction is settled.
\<close>

definition knownUpdateCalls :: "TransactionIds \<Rightarrow> UpTransaction \<Rightarrow> call list" where
  "knownUpdateCalls ids t =
     YPutTransaction (idsId ids)
       [(''amount'', JNum (valueInBaseUnits (amount t) * 10)),
        (''cleared'', JStr (if isSettled t then ''cleared'' else ''uncleared''))]
     # (if truthy (transfer_transaction_id ids) \<and> isSettled t
        then [YPutTransaction (orEmpty (transfer_transaction_id ids))
                [(''cleared'', JStr ''cleared'')]]
        else [])"

text \<open>
  Invocations that overlap: refreshes of the transaction cache, each under a number of
  its own, advance in any order, one half at a time. A refresh that found its key
  leaves nothing pending; the answer of the destination ledger comes with the step
  that ends a refresh.
\<close>

datatype refreshStep =
    BeginRefresh nat platform string "jsdate option"
  | EndRefresh nat "error + YTransactionsData"

fun stepRefresh ::
  "refreshStep \<Rightarrow> (nat \<rightharpoonup> pendingRefresh) \<times> sysstate
     \<Rightarrow> (nat \<rightharpoonup> pendingRefresh) \<times> sysstate" where
  "stepRefresh (BeginRefresh i pf k d) (pend, s) =
     (case refreshBegin pf k d s of
        (None, s1) \<Rightarrow> (pend, s1)
      | (Some p, s1) \<Rightarrow> (pend(i \<mapsto> p), s1))"
| "stepRefresh (EndRefresh i answer) (pend, s) =
     (case pend i of
        None \<Rightarrow> (pend, s)
      | Some p \<Rightarrow> (pend(i := None), snd (refreshEnd p answer s)))"

fun runSteps ::
  "refreshStep list \<Rightarrow> (nat \<rightharpoonup> pendingRefresh) \<times> sysstate
     \<Rightarrow> (nat \<rightharpoonup> pendingRefresh) \<times> sysstate" where
  "runSteps [] st = st"
| "runSteps (x # xs) st = runSteps xs (stepRefresh x st)"

section \<open>A small world to run the handlers in\<close>

text \<open>
  A process in UTC on day 10 of the epoch, one source transaction, its account, and
  remote ledgers that answer every request the same way. The destination ledger echoes the import id of a created transaction when
  \<open>echo\<close> is set, lists no transaction and no account, and the source ledger lists
  the webhooks \<open>hooks\<close> on one page.
\<close>

definition demoPlatform :: platform where
  "demoPlatform =
     \<lparr>hmacSha256Hex = (\<lambda>k b. ''mac:'' @ k @ '':'' @ b),
      JSON_parse = (\<lambda>b. if b = ''created t1''
                         then Inr \<lparr>eventType = ''TRANSACTION_CREATED'',
                                   eventTransactionId = Some ''t1''\<rparr>
                         else Inl SyntaxError),
      toTimeString = (\<lambda>d. ''09:15:00 GMT+0000''),
      toLocaleDateString = (\<lambda>d. ''1970-01-10''),
      now = 864000000,
      addLocalDays = (\<lambda>t n. t + n * 86400000),
      startOfLocalDay = (\<lambda>t. t div 86400000 * 86400000),
      urlWithAccount = (\<lambda>u a. Inr (u @ ''?account='' @ a))\<rparr>"

definition demoEnv :: "string \<rightharpoonup> string" where
  "demoEnv = [''UP_PRIMARY_TOKEN'' \<mapsto> ''k1'', ''UP_PRIMARY_WEBHOOK'' \<mapsto> ''s1'',
              ''UP_SECONDARY_TOKEN'' \<mapsto> ''k2'', ''UP_SECONDARY_WEBHOOK'' \<mapsto> ''s2'']"

definition demoRequest :: "string \<Rightarrow> string \<Rightarrow> HttpRequest" where
  "demoRequest account secret =
     \<lparr>reqBody = ''created t1'', queryAccount = Some account, queryReplaceExisting = None,
      signatureHeader = Some (''mac:'' @ secret @ '':created t1'')\<rparr>"

definition demoTransaction :: UpTransaction where
  "demoTransaction =
     \<lparr>txId = ''t1'', txAccountId = ''a1'', createdAt = Date 777600000, isSettled = True,
      description = ''Coffee'',
      amount = \<lparr>currencyCode = ''AUD'', amountValue = ''-15.00'', valueInBaseUnits = - 1500\<rparr>,
      message = None, foreignAmount = None, transferAccount = None\<rparr>"

definition demoAccount :: UpAccount where
  "demoAccount =
     \<lparr>acId = ''a1'', acType = TRANSACTIONAL, acName = ''Spending'', ownershipType = INDIVIDUAL\<rparr>"

definition demoHook :: Webhook where
  "demoHook =
     \<lparr>whId = ''w1'', whUrl = ''https://f.example/api/webhook?account=primary'',
      whDescription = ''up-ynab-sync primary'', whCreatedAt = Date 0, secretKey = Some ''hush''\<rparr>"

definition demoRemote :: "UpTransaction \<Rightarrow> UpAccount \<Rightarrow> bool \<Rightarrow> Webhook list \<Rightarrow> remote" where
  "demoRemote t a echo hooks =
     \<lparr>answerUpTransaction = (\<lambda>tr c. Inr t),
      answerUpAccount = (\<lambda>tr c. Inr a),
      answerUpPage = (\<lambda>tr c. Inr \<lparr>pageData = hooks, linksNext = None\<rparr>),
      answerNewWebhook = (\<lambda>tr c. Inr demoHook),
      answerUpDelete = (\<lambda>tr c. Inr ()),
      answerTransactions = (\<lambda>tr c. Inr \<lparr>dataTransactions = [], txServerKnowledge = 7\<rparr>),
      answerAccounts = (\<lambda>tr c. Inr \<lparr>dataAccounts = [], acServerKnowledge = 3\<rparr>),
      answerNewAccount = (\<lambda>tr c. Inr \<lparr>ajId = ''ya1'', ajNote = None, ajTransferPayeeId = ''p1''\<rparr>),
      answerNewTransaction =
        (\<lambda>tr c. case c of
           YPostTransaction p \<Rightarrow>
             Inr \<lparr>tjId = ''yt1'',
                  tjImportId = (if echo
                                then (case map_of p ''import_id'' of
                                        Some (JStr k) \<Rightarrow> Some k
                                      | _ \<Rightarrow> None)
                                else None),
                  tjTransferTransactionId = None\<rparr>
         | _ \<Rightarrow> Inl (HttpError ''400'')),
      answerPut = (\<lambda>tr c. Inr ())\<rparr>"

definition demoIds :: TransactionIds where
  "demoIds = \<lparr>idsId = ''yt1'', transfer_transaction_id = None\<rparr>"

text \<open>The state of a process that already knows the destination transaction of \<open>t1\<close>.\<close>

definition demoKnown :: sysstate where
  "demoKnown = initialState\<lparr>transactions := cacheSet ''up:t1'' demoIds emptyCache\<rparr>"

text \<open>The same, when the destination ledger has paired the transaction with \<open>yt2\<close>.\<close>

definition demoPairedIds :: TransactionIds where
  "demoPairedIds = \<lparr>idsId = ''yt1'', transfer_transaction_id = Some ''yt2''\<rparr>"

definition demoPaired :: sysstate where
  "demoPaired = initialState\<lparr>transactions := cacheSet ''up:t1'' demoPairedIds emptyCache\<rparr>"

text \<open>A joint account, and the credit side of a transfer from the account \<open>a2\<close>.\<close>

definition demoJoint :: UpAccount where
  "demoJoint = demoAccount\<lparr>ownershipType := JOINT\<rparr>"

definition demoCredit :: UpTransaction where
  "demoCredit =
     demoTransaction\<lparr>amount := \<lparr>currencyCode = ''AUD'', amountValue = ''5.00'',
                                 valueInBaseUnits = 500\<rparr>,
                      transferAccount := Some ''a2''\<rparr>"

text \<open>A process whose transaction cache was last synced from day 6 with token 7.\<close>

definition demoSynced :: sysstate where
  "demoSynced =
     initialState\<lparr>transactions :=
       \<lparr>entries = Map.empty, lastKnowledgeOfServer = 7, sinceDate = Some (Date 518400000)\<rparr>\<rparr>"


text \<open>
  The requests of a first delivery of \<open>t1\<close> to a fresh process, and the state it
  leaves: the account \<open>a1\<close> is provisioned, and the new transaction is in the cache
  when the ledger echoed its import id.
\<close>

definition demoCreation :: call where
  "demoCreation =
     YPostTransaction
       [(''amount'', JNum (- 15000)), (''cleared'', JStr ''cleared''),
        (''account_id'', JStr ''ya1''), (''date'', JStr ''1970-01-10''),
        (''import_id'', JStr ''up:t1''), (''memo'', JStr ''09:15''),
        (''payee_name'', JStr ''Coffee'')]"

definition demoAfterFirst :: "bool \<Rightarrow> sysstate" where
  "demoAfterFirst echo =
     \<lparr>accounts = \<lparr>entries = [''a1'' \<mapsto> \<lparr>yaId = ''ya1'', payeeId = ''p1''\<rparr>],
                  lastKnowledgeOfServer = 3, sinceDate = None\<rparr>,
      transactions = \<lparr>entries = (if echo then [''up:t1'' \<mapsto> demoIds] else Map.empty),
                      lastKnowledgeOfServer = 7, sinceDate = Some (Date 518400000)\<rparr>,
      trace = [UpGetTransaction Primary ''t1'', UpGetAccount Primary ''a1'',
               YGetTransactions ''1970-01-10'' 0, YGetAccounts 0,
               YPostAccount [(''name'', JStr ''Up: Spending (a1)''), (''type'', JStr ''checking''),
                             (''balance'', JNum 0), (''note'', JStr ''upId:a1'')],
               demoCreation]\<rparr>"

section \<open>Properties\<close>

subsection \<open>The import id\<close>

lemma replaceFrom_dash: "replaceFrom s ''-'' [] = filter (\<lambda>c. c \<noteq> CHR ''-'') s"
  by (induction s) auto

lemma importIdOf_filter: "importIdOf i = ''up:'' @ filter (\<lambda>c. c \<noteq> CHR ''-'') i"
  by (simp add: importIdOf_def replaceAll_def replaceFrom_dash)

text \<open>
  C7. The idempotency key of a source transaction is \<open>up:\<close> followed by the source id
  without its dashes: it has no dash itself, it is \<open>up:t1\<close> for the id \<open>t1\<close>, and
  it is the import id put into a new destination transaction.
\<close>

theorem import_id_is_prefix_and_dashless_id:
  "importIdOf upTransactionId = ''up:'' @ filter (\<lambda>c. c \<noteq> CHR ''-'') upTransactionId
   \<and> importIdOf ''t1'' = ''up:t1''
   \<and> CHR ''-'' \<notin> set (importIdOf upTransactionId)
   \<and> map_of (newFields pf t ynabAccount) ''import_id''
       = Some (JStr (''up:'' @ filter (\<lambda>c. c \<noteq> CHR ''-'') (txId t)))"
  by (simp add: importIdOf_def replaceAll_def replaceFrom_dash newFields_def)

theorem import_id_is_prefix_and_dashless_id_witness:
  "importIdOf ''0a1b-2c3d'' = ''up:0a1b2c3d''
   \<and> map_of (newFields demoPlatform demoTransaction \<lparr>yaId = ''ya1'', payeeId = ''p1''\<rparr>) ''import_id''
       = Some (JStr ''up:t1'')"
  using import_id_is_prefix_and_dashless_id
          [of "''0a1b-2c3d''" demoPlatform demoTransaction "\<lparr>yaId = ''ya1'', payeeId = ''p1''\<rparr>"]
  by (simp add: demoTransaction_def)

subsection \<open>Refusing a request that cannot be verified\<close>

text \<open>
  C10. On a valid connection selector, when the signature header is absent (or empty) or
  the webhook secret of the selected connection is empty, the signature check is false
  and the handler answers 403 and leaves the state as it was: no request is sent,
  neither for the transaction nor for anything else.
\<close>

theorem signature_check_fails_closed:
  assumes "selector (queryAccount request) = Some account"
    and "\<not> truthy (signatureHeader request) \<or> webhookSecret (upApis env account) = []"
  shows "\<not> validateWebhookSignature pf (upApis env account) (reqBody request)
             (signatureHeader request)
       \<and> webhook pf env rm request s
           = (Inr \<lparr>status = 403, respBody = Some ''Invalid signature''\<rparr>, s)"
proof -
  have v: "\<not> validateWebhookSignature pf (upApis env account) (reqBody request)
                (signatureHeader request)"
    using assms(2) by (cases "signatureHeader request") (auto simp: validateWebhookSignature_def)
  then show ?thesis
    using assms(1) by (simp add: webhook_def webhookBranch_def bindM_def returnM_def)
qed

theorem signature_check_fails_closed_witness:
  "webhook demoPlatform Map.empty (demoRemote demoTransaction demoAccount True [])
     ((demoRequest ''primary'' ''s1'')) initialState
     = (Inr \<lparr>status = 403, respBody = Some ''Invalid signature''\<rparr>, initialState)
   \<and> webhook demoPlatform demoEnv (demoRemote demoTransaction demoAccount True [])
     ((demoRequest ''secondary'' ''s2'')\<lparr>signatureHeader := None\<rparr>) initialState
     = (Inr \<lparr>status = 403, respBody = Some ''Invalid signature''\<rparr>, initialState)"
  using signature_check_fails_closed
          [of "demoRequest ''primary'' ''s1''" Primary Map.empty demoPlatform
              "demoRemote demoTransaction demoAccount True []" initialState]
        signature_check_fails_closed
          [of "(demoRequest ''secondary'' ''s2'')\<lparr>signatureHeader := None\<rparr>" Secondary demoEnv
              demoPlatform "demoRemote demoTransaction demoAccount True []" initialState]
  by (simp add: selector_def demoRequest_def)

subsection \<open>The update of a known transaction\<close>

text \<open>
  C6. When the lookup of the import id of a source transaction returns a destination
  transaction (from the cache as it was, or after a refresh), the handler sends one
  update to that transaction, and the object sent has exactly two properties:
  \<open>amount\<close>, ten times the value in base units, and \<open>cleared\<close>, which is
  \<open>cleared\<close> for a settled transaction and \<open>uncleared\<close> otherwise. No account,
  date, memo, payee or import id is sent, and nothing else changes.
\<close>

theorem known_import_id_updates_amount_and_cleared_only:
  assumes "getTransactionFromImportId pf rm (importIdOf (txId t)) (Some (createdAt t)) s
             = (Inr (Some ids), s1)"
  shows "resolve pf env rm t a s =
           (Inr ids,
            s1\<lparr>trace := trace s1 @
               [YPutTransaction (idsId ids)
                  [(''amount'', JNum (valueInBaseUnits (amount t) * 10)),
                   (''cleared'', JStr (if isSettled t then ''cleared'' else ''uncleared''))]]\<rparr>)"
  using assms
  by (simp add: resolve_def updateKnown_def bindM_def notAwaited_def updateTransaction_def
        perform_def removeEmptyProperties_def updateFields_def clearedOf_def returnM_def)

subsection \<open>Provisioning a destination account\<close>

lemma createAccount_run:
  "createAccount rm name type upAccountId balance s =
     (case answerNewAccount rm (trace s)
             (YPostAccount [(''name'', JStr (take 50 name)),
                            (''type'', JStr (toString_AccountType type)),
                            (''balance'', JNum balance),
                            (''note'', JStr (''upId:'' @ upAccountId))]) of
        Inl e \<Rightarrow>
          (Inl e, s\<lparr>trace := trace s @
             [YPostAccount [(''name'', JStr (take 50 name)),
                            (''type'', JStr (toString_AccountType type)),
                            (''balance'', JNum balance),
                            (''note'', JStr (''upId:'' @ upAccountId))]]\<rparr>)
      | Inr j \<Rightarrow>
          (Inr \<lparr>yaId = ajId j, payeeId = ajTransferPayeeId j\<rparr>,
           s\<lparr>trace := trace s @
             [YPostAccount [(''name'', JStr (take 50 name)),
                            (''type'', JStr (toString_AccountType type)),
                            (''balance'', JNum balance),
                            (''note'', JStr (''upId:'' @ upAccountId))]],
             accounts := cacheSet upAccountId \<lparr>yaId = ajId j, payeeId = ajTransferPayeeId j\<rparr>
                           (accounts s)\<rparr>))"
  by (simp add: createAccount_def bindM_def perform_def Let_def split: sum.splits)

lemma getAccount_hit:
  "entries (accounts s) k = Some v \<Longrightarrow> getAccount rm k s = (Inr (Some v), s)"
  by (simp add: getAccount_def)

text \<open>
  C8. Provisioning the destination account of a source account sends one creation whose
  name is \<open>Up: <name> (<id>)\<close> cut to 50 characters, whose type is checking for a
  transactional source account and savings for any other, whose balance is zero and
  whose note is \<open>upId:<id>\<close>. When the creation succeeds the account is stored in
  the cache under the source id at once, so that a later lookup of that id returns it
  without any request.
\<close>

theorem provisioning_creates_tagged_account_and_caches_it:
  "(let c = YPostAccount
              [(''name'', JStr (take 50 (''Up: '' @ acName a @ '' ('' @ acId a @ '')''))),
               (''type'', JStr (if acType a = TRANSACTIONAL then ''checking'' else ''savings'')),
               (''balance'', JNum 0),
               (''note'', JStr (''upId:'' @ acId a))];
        s1 = s\<lparr>trace := trace s @ [c]\<rparr>
    in createYnabAccount rm a s =
         (case answerNewAccount rm (trace s) c of
            Inl e \<Rightarrow> (Inl e, s1)
          | Inr j \<Rightarrow>
              (Inr \<lparr>yaId = ajId j, payeeId = ajTransferPayeeId j\<rparr>,
               s1\<lparr>accounts := cacheSet (acId a) \<lparr>yaId = ajId j, payeeId = ajTransferPayeeId j\<rparr>
                                  (accounts s)\<rparr>)))
   \<and> length (take 50 (''Up: '' @ acName a @ '' ('' @ acId a @ '')'')) \<le> 50
   \<and> (\<forall>ynabAccount s'. createYnabAccount rm a s = (Inr ynabAccount, s') \<longrightarrow>
         entries (accounts s') (acId a) = Some ynabAccount
         \<and> (\<forall>rm'. getAccount rm' (acId a) s' = (Inr (Some ynabAccount), s')))"
proof -
  define nm where "nm = take 50 (''Up: '' @ acName a @ '' ('' @ acId a @ '')'')"
  define ty where "ty = (if acType a = TRANSACTIONAL then Checking else Savings)"
  have nn: "take 50 nm = nm"
    unfolding nm_def by (rule take_all) (simp del: take_append take_Cons_numeral)
  have tt: "toString_AccountType ty = (if acType a = TRANSACTIONAL then ''checking'' else ''savings'')"
    by (simp add: ty_def)
  have run: "createYnabAccount rm a s = createAccount rm nm ty (acId a) 0 s"
    by (simp only: createYnabAccount_def Let_def nm_def ty_def)
  have len: "length nm \<le> 50"
    unfolding nm_def by (simp only: length_take min.cobounded2)
  have cached: "entries (accounts s') (acId a) = Some y
        \<and> (\<forall>rm'. getAccount rm' (acId a) s' = (Inr (Some y), s'))"
    if "createYnabAccount rm a s = (Inr y, s')" for y s'
  proof -
    from that have "entries (accounts s') (acId a) = Some y"
      unfolding run createAccount_run
      by (auto simp: cacheSet_def split: sum.splits)
    then show ?thesis by (simp add: getAccount_hit)
  qed
  show ?thesis
    unfolding Let_def nm_def[symmetric]
    using len cached
    by (simp only: run createAccount_run nn tt) (simp split: sum.splits)
qed


subsection \<open>The answers of the small world\<close>

lemma demoRemote_answers:
  "answerUpTransaction (demoRemote t a e h) tr c = Inr t"
  "answerUpAccount (demoRemote t a e h) tr c = Inr a"
  "answerUpPage (demoRemote t a e h) tr c = Inr \<lparr>pageData = h, linksNext = None\<rparr>"
  "answerNewWebhook (demoRemote t a e h) tr c = Inr demoHook"
  "answerUpDelete (demoRemote t a e h) tr c = Inr ()"
  "answerTransactions (demoRemote t a e h) tr c = Inr \<lparr>dataTransactions = [], txServerKnowledge = 7\<rparr>"
  "answerAccounts (demoRemote t a e h) tr c = Inr \<lparr>dataAccounts = [], acServerKnowledge = 3\<rparr>"
  "answerNewAccount (demoRemote t a e h) tr c
     = Inr \<lparr>ajId = ''ya1'', ajNote = None, ajTransferPayeeId = ''p1''\<rparr>"
  "answerNewTransaction (demoRemote t a e h) tr (YPostTransaction p)
     = Inr \<lparr>tjId = ''yt1'',
            tjImportId = (if e then (case map_of p ''import_id'' of
                                       Some (JStr k) \<Rightarrow> Some k | _ \<Rightarrow> None)
                          else None),
            tjTransferTransactionId = None\<rparr>"
  "answerPut (demoRemote t a e h) tr c = Inr ()"
  by (simp_all add: demoRemote_def)

lemma importIdOf_t1: "importIdOf ''t1'' = ''up:t1''"
  by (simp add: importIdOf_filter)

theorem known_import_id_updates_amount_and_cleared_only_witness:
  "resolve demoPlatform demoEnv (demoRemote demoTransaction demoAccount True []) demoTransaction
       demoAccount demoKnown
     = (Inr demoIds,
        demoKnown\<lparr>trace := [YPutTransaction ''yt1''
                    [(''amount'', JNum (- 15000)), (''cleared'', JStr ''cleared'')]]\<rparr>)"
  using known_import_id_updates_amount_and_cleared_only
          [of demoPlatform "demoRemote demoTransaction demoAccount True []" demoTransaction
              demoKnown demoIds demoKnown demoEnv demoAccount]
  by (simp add: getTransactionFromImportId_def importIdOf_t1 demoTransaction_def demoKnown_def
        cacheSet_def emptyCache_def initialState_def demoIds_def)

theorem provisioning_creates_tagged_account_and_caches_it_witness:
  "createYnabAccount (demoRemote demoTransaction demoAccount True []) demoAccount initialState
     = (Inr \<lparr>yaId = ''ya1'', payeeId = ''p1''\<rparr>,
        initialState\<lparr>trace := [YPostAccount
                         [(''name'', JStr ''Up: Spending (a1)''),
                          (''type'', JStr ''checking''),
                          (''balance'', JNum 0),
                          (''note'', JStr ''upId:a1'')]],
                      accounts := cacheSet ''a1'' \<lparr>yaId = ''ya1'', payeeId = ''p1''\<rparr> emptyCache\<rparr>)
   \<and> getAccount (demoRemote demoTransaction demoAccount True []) ''a1''
        (snd (createYnabAccount (demoRemote demoTransaction demoAccount True []) demoAccount
                initialState))
       = (Inr (Some \<lparr>yaId = ''ya1'', payeeId = ''p1''\<rparr>),
          snd (createYnabAccount (demoRemote demoTransaction demoAccount True []) demoAccount
                initialState))"
proof -
  let ?rm = "demoRemote demoTransaction demoAccount True []"
  note spec = provisioning_creates_tagged_account_and_caches_it [of demoAccount initialState ?rm]
  have run: "createYnabAccount ?rm demoAccount initialState
     = (Inr \<lparr>yaId = ''ya1'', payeeId = ''p1''\<rparr>,
        initialState\<lparr>trace := [YPostAccount
                         [(''name'', JStr ''Up: Spending (a1)''),
                          (''type'', JStr ''checking''),
                          (''balance'', JNum 0),
                          (''note'', JStr ''upId:a1'')]],
                      accounts := cacheSet ''a1'' \<lparr>yaId = ''ya1'', payeeId = ''p1''\<rparr> emptyCache\<rparr>)"
    using spec by (simp add: Let_def demoAccount_def demoRemote_answers initialState_def)
  note hit = spec [unfolded Let_def, THEN conjunct2, THEN conjunct2, rule_format, OF run,
                   THEN conjunct2, rule_format, of ?rm]
  with run have "getAccount ?rm (acId demoAccount)
        (snd (createYnabAccount ?rm demoAccount initialState))
       = (Inr (Some \<lparr>yaId = ''ya1'', payeeId = ''p1''\<rparr>),
          snd (createYnabAccount ?rm demoAccount initialState))"
    by (simp only: snd_conv)
  then show ?thesis using run by (simp add: demoAccount_def)
qed

subsection \<open>Relations kept by every step of the handler\<close>

lemma stepsM_return: "reflp R \<Longrightarrow> stepsM R (returnM a)"
  by (simp add: stepsM_def returnM_def reflp_def)

lemma stepsM_throw: "reflp R \<Longrightarrow> stepsM R (throwM e)"
  by (simp add: stepsM_def throwM_def reflp_def)

lemma stepsM_bind:
  assumes "transp R" and "stepsM R m" and "\<And>a. stepsM R (f a)"
  shows "stepsM R (bindM m f)"
  unfolding stepsM_def
proof (intro allI impI)
  fix s r s'
  assume run: "bindM m f s = (r, s')"
  obtain r1 s1 where m: "m s = (r1, s1)" by (cases "m s")
  with assms(2) have 1: "R s s1" by (simp add: stepsM_def)
  show "R s s'"
  proof (cases r1)
    case (Inl e)
    with run m 1 show ?thesis by (simp add: bindM_def)
  next
    case (Inr a)
    with run m have "f a s1 = (r, s')" by (simp add: bindM_def)
    with assms(3) have "R s1 s'" by (simp add: stepsM_def)
    with 1 assms(1) show ?thesis by (meson transpD)
  qed
qed

lemma stepsM_catch:
  assumes "transp R" and "stepsM R m" and "\<And>e. stepsM R (h e)"
  shows "stepsM R (catchM m h)"
  unfolding stepsM_def
proof (intro allI impI)
  fix s r s'
  assume run: "catchM m h s = (r, s')"
  obtain r1 s1 where m: "m s = (r1, s1)" by (cases "m s")
  with assms(2) have 1: "R s s1" by (simp add: stepsM_def)
  show "R s s'"
  proof (cases r1)
    case (Inr a)
    with run m 1 show ?thesis by (simp add: catchM_def)
  next
    case (Inl e)
    with run m have "h e s1 = (r, s')" by (simp add: catchM_def)
    with assms(3) have "R s1 s'" by (simp add: stepsM_def)
    with 1 assms(1) show ?thesis by (meson transpD)
  qed
qed

lemma stepsM_notAwaited: "stepsM R m \<Longrightarrow> stepsM R (notAwaited m)"
  by (auto simp: stepsM_def notAwaited_def) (metis prod.collapse)

lemma stepsM_perform:
  "upheld R allowed \<Longrightarrow> allowed c \<Longrightarrow> stepsM R (perform f c)"
  by (simp add: upheld_def stepsM_def perform_def)

lemma stepsM_upFetch:
  assumes "upheld R allowed" and "allowed c"
  shows "stepsM R (upFetch api f c)"
proof (cases "apiKey api = []")
  case True
  from assms(1) have "reflp R" by (simp add: upheld_def)
  with True show ?thesis by (simp add: upFetch_def stepsM_throw)
next
  case False
  with assms show ?thesis by (simp add: upFetch_def stepsM_perform)
qed

lemma stepsM_updateTransaction:
  "upheld R allowed \<Longrightarrow> allowed (YPutTransaction i (removeEmptyProperties p))
     \<Longrightarrow> stepsM R (updateTransaction rm i p)"
  by (simp add: updateTransaction_def stepsM_perform)

lemma stepsM_createYnabAccount:
  "upheld R allowed \<Longrightarrow> stepsM R (createYnabAccount rm a)"
  by (simp add: createYnabAccount_def Let_def upheld_def)

lemma stepsM_getYnabTransferAccountPayeeId:
  assumes "upheld R allowed" and "\<And>c i. allowed (UpGetAccount c i)"
  shows "stepsM R (getYnabTransferAccountPayeeId env rm i)"
proof -
  from assms(1) have t: "transp R" and r: "reflp R" by (simp_all add: upheld_def)
  from assms(1) have g: "stepsM R (getAccount rm i)" by (simp add: upheld_def)
  show ?thesis
    unfolding getYnabTransferAccountPayeeId_def
    by (intro stepsM_bind[OF t] g stepsM_catch[OF t])
       (auto split: option.splits intro!: stepsM_bind[OF t] stepsM_catch[OF t] stepsM_return[OF r]
          stepsM_createYnabAccount[OF assms(1)] stepsM_upFetch[OF assms(1)] assms(2)
          simp: getUpAccount_def)
qed


lemma removeEmpty_updateFields: "removeEmptyProperties (updateFields t) = updateFields t"
  by (simp add: removeEmptyProperties_def updateFields_def clearedOf_def)

lemma removeEmpty_cleared:
  "removeEmptyProperties [(''cleared'', JStr ''cleared'')] = [(''cleared'', JStr ''cleared'')]"
  by (simp add: removeEmptyProperties_def)

lemma stepsM_updateKnown:
  assumes u: "upheld R allowed"
    and put: "\<And>i. allowed (YPutTransaction i (updateFields t))"
  shows "stepsM R (updateKnown rm t ids)"
proof -
  from u have tr: "transp R" and r: "reflp R" by (simp_all add: upheld_def)
  have upd: "stepsM R (updateTransaction rm i (updateFields t))" for i
    by (rule stepsM_updateTransaction[OF u]) (simp add: removeEmpty_updateFields put)
  show ?thesis
    unfolding updateKnown_def
    by (intro stepsM_bind[OF tr] stepsM_return[OF r] stepsM_notAwaited upd)
qed

lemma stepsM_createNew:
  assumes u: "upheld R allowed" and up: "\<And>c i. allowed (UpGetAccount c i)"
  shows "stepsM R (createNew pf env rm t a)"
proof -
  from u have tr: "transp R" and r: "reflp R" by (simp_all add: upheld_def)
  from u have prim:
    "\<And>k. stepsM R (getAccount rm k)"
    "\<And>p. stepsM R (createTransaction rm p)"
    by (simp_all add: upheld_def)
  show ?thesis
    unfolding createNew_def
    by (intro stepsM_bind[OF tr] prim)
       (auto split: option.splits
          intro!: stepsM_bind[OF tr] stepsM_return[OF r] prim
            stepsM_createYnabAccount[OF u] stepsM_getYnabTransferAccountPayeeId[OF u] up)
qed

lemma stepsM_resolve:
  assumes u: "upheld R allowed" and up: "\<And>c i. allowed (UpGetAccount c i)"
    and put: "\<And>i. allowed (YPutTransaction i (updateFields t))"
  shows "stepsM R (resolve pf env rm t a)"
proof -
  from u have tr: "transp R" by (simp add: upheld_def)
  from u have prim: "\<And>k d. stepsM R (getTransactionFromImportId pf rm k d)"
    by (simp add: upheld_def)
  show ?thesis
    unfolding resolve_def
    by (intro stepsM_bind[OF tr] prim)
       (auto split: option.splits
          intro!: stepsM_updateKnown[OF u put] stepsM_createNew[OF u up])
qed

lemma stepsM_reconcile:
  assumes u: "upheld R allowed" and up: "\<And>c i. allowed (UpGetAccount c i)"
    and put: "\<And>i. allowed (YPutTransaction i (updateFields t))"
    and clr: "\<And>i. allowed (YPutTransaction i [(''cleared'', JStr ''cleared'')])"
  shows "stepsM R (reconcile pf env rm t a)"
proof -
  from u have tr: "transp R" and r: "reflp R" by (simp_all add: upheld_def)
  have upd: "stepsM R (updateTransaction rm i [(''cleared'', JStr ''cleared'')])" for i
    by (rule stepsM_updateTransaction[OF u]) (simp add: removeEmpty_cleared clr)
  show ?thesis
    unfolding reconcile_def
    by (intro stepsM_bind[OF tr] stepsM_resolve[OF u up put])
       (auto split: option.splits intro!: stepsM_bind[OF tr] stepsM_return[OF r] upd)
qed

lemma stepsM_webhookBranch:
  assumes u: "upheld R allowed" and all: "\<And>c. allowed c"
  shows "stepsM R (webhookBranch pf env rm request)"
proof -
  from u have tr: "transp R" and r: "reflp R" by (simp_all add: upheld_def)
  show ?thesis
    unfolding webhookBranch_def Let_def getTransaction_def getUpAccount_def
    by (auto split: option.splits sum.splits
          intro!: stepsM_bind[OF tr] stepsM_return[OF r] stepsM_throw[OF r]
            stepsM_upFetch[OF u] stepsM_reconcile[OF u] all)
qed

lemma stepsM_webhook:
  assumes u: "upheld R allowed" and all: "\<And>c. allowed c"
  shows "stepsM R (webhook pf env rm request)"
proof -
  from u have tr: "transp R" and r: "reflp R" by (simp_all add: upheld_def)
  show ?thesis
    unfolding webhook_def
    by (intro stepsM_bind[OF tr] stepsM_webhookBranch[OF u all] stepsM_return[OF r])
qed


lemma sends_refl: "sends P s s"
  by (simp add: sends_def)

lemma sends_trans: "sends P s s1 \<Longrightarrow> sends P s1 s2 \<Longrightarrow> sends P s s2"
  by (auto simp: sends_def)

lemma sends_one: "P c \<Longrightarrow> sends P s (s\<lparr>trace := trace s @ [c]\<rparr>)"
  by (simp add: sends_def)

lemma sends_getTransactionFromImportId:
  assumes "\<And>d k. P (YGetTransactions d k)"
  shows "stepsM (sends P) (getTransactionFromImportId pf rm k d)"
  using assms
  by (auto simp: stepsM_def getTransactionFromImportId_def Let_def sends_def
        split: if_splits sum.splits)

lemma sends_getAccount:
  assumes "\<And>k. P (YGetAccounts k)"
  shows "stepsM (sends P) (getAccount rm k)"
  using assms
  by (auto simp: stepsM_def getAccount_def Let_def sends_def split: if_splits sum.splits)

lemma sends_createAccount:
  assumes "\<And>p. P (YPostAccount p)"
  shows "stepsM (sends P) (createAccount rm n t u b)"
  using assms
  by (auto simp: stepsM_def createAccount_def Let_def bindM_def perform_def sends_def
        split: sum.splits)

lemma sends_createTransaction:
  assumes "\<And>p. P (YPostTransaction p)"
  shows "stepsM (sends P) (createTransaction rm p)"
  using assms
  by (auto simp: stepsM_def createTransaction_def Let_def bindM_def perform_def sends_def
        split: sum.splits option.splits if_splits)

lemma upheld_sends:
  assumes np: "\<And>c. \<not> isPut c \<Longrightarrow> P c"
  shows "upheld (sends P) P"
proof -
  have 1: "reflp (sends P)" by (rule reflpI) (rule sends_refl)
  have 2: "transp (sends P)" by (rule transpI) (rule sends_trans)
  have 3: "\<forall>s c. P c \<longrightarrow> sends P s (s\<lparr>trace := trace s @ [c]\<rparr>)"
    by (simp add: sends_one)
  have 4: "\<forall>pf rm k d. stepsM (sends P) (getTransactionFromImportId pf rm k d)"
    by (intro allI sends_getTransactionFromImportId np) simp
  have 5: "\<forall>rm k. stepsM (sends P) (getAccount rm k)"
    by (intro allI sends_getAccount np) simp
  have 6: "\<forall>rm n t u b. stepsM (sends P) (createAccount rm n t u b)"
    by (intro allI sends_createAccount np) simp
  have 7: "\<forall>rm p. stepsM (sends P) (createTransaction rm p)"
    by (intro allI sends_createTransaction np) simp
  from 1 2 3 4 5 6 7 show ?thesis unfolding upheld_def by blast
qed

lemma notLater_refl: "notLater w w"
  by (cases "(w, w)" rule: notLater.cases) auto

lemma notLater_trans: "notLater a b \<Longrightarrow> notLater b c \<Longrightarrow> notLater a c"
  by (cases "(a, b)" rule: notLater.cases; cases "(b, c)" rule: notLater.cases) auto

lemma sinceDate_storeTransactions [simp]:
  "sinceDate (storeTransactions js cache) = sinceDate cache"
  by (induction js arbitrary: cache) (auto simp: cacheSet_def split: option.splits)

lemma sinceDate_storeAccounts [simp]:
  "sinceDate (storeAccounts js cache) = sinceDate cache"
  by (induction js arbitrary: cache) (auto simp: cacheSet_def split: option.splits)

lemma window_refl: "window s s"
  by (simp add: window_def notLater_refl)

lemma window_trans: "window s s1 \<Longrightarrow> window s1 s2 \<Longrightarrow> window s s2"
  by (auto simp: window_def intro: notLater_trans)

lemma notLater_refresh:
  "notLater w
     (Some (case (case d of None \<Rightarrow> None
                  | Some x \<Rightarrow> if date_lt x (case w of None \<Rightarrow> dflt | Some y \<Rightarrow> y)
                              then Some x else None) of
              None \<Rightarrow> (case w of None \<Rightarrow> dflt | Some y \<Rightarrow> y)
            | Some x \<Rightarrow> x))"
proof (cases w)
  case None
  then show ?thesis by simp
next
  case (Some y)
  show ?thesis
  proof (cases y)
    case (Date n)
    with Some show ?thesis
      by (cases d) (auto split: jsdate.splits elim: date_lt.elims)
  next
    case InvalidDate
    with Some show ?thesis by (cases d) auto
  qed
qed

lemma window_getTransactionFromImportId:
  "stepsM window (getTransactionFromImportId pf rm k d)"
  unfolding stepsM_def
proof (intro allI impI)
  fix s r s'
  assume run: "getTransactionFromImportId pf rm k d s = (r, s')"
  show "window s s'"
  proof (cases "entries (transactions s) k")
    case (Some v)
    with run show ?thesis by (simp add: getTransactionFromImportId_def window_refl)
  next
    case None
    with run show ?thesis
      using notLater_refresh[where w = "sinceDate (transactions s)" and d = d
                                and dflt = "todayOffset pf (- 4) True"]
      by (auto simp: getTransactionFromImportId_def Let_def window_def notLater_refl
            split: sum.splits)
  qed
qed

lemma window_getAccount: "stepsM window (getAccount rm k)"
  by (auto simp: stepsM_def getAccount_def Let_def window_def notLater_refl
        split: if_splits sum.splits)

lemma window_createAccount: "stepsM window (createAccount rm n t u b)"
  by (auto simp: stepsM_def createAccount_def Let_def bindM_def perform_def window_def
        notLater_refl cacheSet_def split: sum.splits)

lemma window_createTransaction: "stepsM window (createTransaction rm p)"
  by (auto simp: stepsM_def createTransaction_def Let_def bindM_def perform_def window_def
        notLater_refl cacheSet_def split: sum.splits option.splits if_splits)

lemma upheld_window: "upheld window (\<lambda>c. True)"
proof -
  have 1: "reflp window" by (rule reflpI) (rule window_refl)
  have 2: "transp window" by (rule transpI) (rule window_trans)
  have 3: "\<forall>s c. True \<longrightarrow> window s (s\<lparr>trace := trace s @ [c]\<rparr>)"
    by (simp add: window_def notLater_refl)
  from 1 2 3 window_getTransactionFromImportId window_getAccount window_createAccount
    window_createTransaction
  show ?thesis unfolding upheld_def by blast
qed

subsection \<open>Clearing the other side of a transfer\<close>

lemma getTransactionFromImportId_hit:
  "entries (transactions s) k = Some ids
     \<Longrightarrow> getTransactionFromImportId pf rm k d s = (Inr (Some ids), s)"
  by (simp add: getTransactionFromImportId_def)

lemma resolve_hit:
  "entries (transactions s) (importIdOf (txId t)) = Some ids
     \<Longrightarrow> resolve pf env rm t a s
           = (Inr ids, s\<lparr>trace := trace s @ [YPutTransaction (idsId ids) (updateFields t)]\<rparr>)"
  by (simp add: resolve_def updateKnown_def bindM_def getTransactionFromImportId_hit
        notAwaited_def updateTransaction_def perform_def removeEmpty_updateFields returnM_def)

lemma reconcile_after_resolve:
  assumes "resolve pf env rm t a s = (Inr ids, s1)"
  shows "reconcile pf env rm t a s =
           (if truthy (transfer_transaction_id ids) \<and> isSettled t
            then (case answerPut rm (trace s1)
                         (YPutTransaction (orEmpty (transfer_transaction_id ids))
                            [(''cleared'', JStr ''cleared'')]) of
                    Inl e \<Rightarrow> Inl e | Inr u \<Rightarrow> Inr ids,
                  s1\<lparr>trace := trace s1 @
                     [YPutTransaction (orEmpty (transfer_transaction_id ids))
                        [(''cleared'', JStr ''cleared'')]]\<rparr>)
            else (Inr ids, s1))"
  using assms
  by (cases "transfer_transaction_id ids")
     (auto simp: reconcile_def bindM_def returnM_def updateTransaction_def perform_def
        removeEmpty_cleared split: sum.splits)

lemma isClearOnly_not_put: "\<not> isPut c \<Longrightarrow> \<not> isClearOnly c"
  by (cases c) auto

lemma resolve_sends_no_clear_only:
  assumes "resolve pf env rm t a s = (r, s1)"
  shows "\<exists>cs. trace s1 = trace s @ cs \<and> filter isClearOnly cs = []"
proof -
  have "stepsM (sends (\<lambda>c. \<not> isClearOnly c)) (resolve pf env rm t a)"
    by (rule stepsM_resolve[OF upheld_sends]) (simp_all add: isClearOnly_not_put updateFields_def)
  with assms have "sends (\<lambda>c. \<not> isClearOnly c) s s1" by (simp add: stepsM_def)
  then show ?thesis by (auto simp: sends_def list_all_iff filter_empty_conv)
qed

text \<open>
  C3. Once the destination transaction of a source transaction is resolved, the handler
  sends one more request exactly when the resolved identity carries a counterpart
  transaction id and the source transaction is settled: an update of that counterpart
  whose object is the single property \<open>cleared = cleared\<close>, whatever the counterpart
  was before. Otherwise it sends nothing more. The caches are untouched by this step, and
  among all the requests of the reconciliation this is the only update that carries
  nothing but \<open>cleared\<close>.
\<close>

theorem settled_transfer_clears_counterpart_once:
  assumes "resolve pf env rm t a s = (Inr ids, s1)"
  shows "(case reconcile pf env rm t a s of
            (r, s2) \<Rightarrow>
              accounts s2 = accounts s1 \<and> transactions s2 = transactions s1
              \<and> newCalls s1 s2 =
                  (if truthy (transfer_transaction_id ids) \<and> isSettled t
                   then [YPutTransaction (orEmpty (transfer_transaction_id ids))
                           [(''cleared'', JStr ''cleared'')]]
                   else [])
              \<and> filter isClearOnly (newCalls s s2) = newCalls s1 s2)"
proof -
  obtain cs where cs: "trace s1 = trace s @ cs" "filter isClearOnly cs = []"
    using resolve_sends_no_clear_only[OF assms] by blast
  show ?thesis
    using cs by (simp add: reconcile_after_resolve[OF assms] newCalls_def)
qed

theorem settled_transfer_clears_counterpart_once_witness:
  "reconcile demoPlatform demoEnv (demoRemote demoTransaction demoAccount True [])
       demoTransaction demoAccount demoPaired
     = (Inr demoPairedIds,
        demoPaired\<lparr>trace :=
          [YPutTransaction ''yt1'' [(''amount'', JNum (- 15000)), (''cleared'', JStr ''cleared'')],
           YPutTransaction ''yt2'' [(''cleared'', JStr ''cleared'')]]\<rparr>)"
proof -
  let ?rm = "demoRemote demoTransaction demoAccount True []"
  have hit: "entries (transactions demoPaired) (importIdOf (txId demoTransaction)) = Some demoPairedIds"
    by (simp add: demoPaired_def demoTransaction_def importIdOf_t1 cacheSet_def)
  note run = resolve_hit[OF hit, of demoPlatform demoEnv ?rm demoAccount]
  note after = reconcile_after_resolve[OF run]
  from settled_transfer_clears_counterpart_once[OF run]
  have "newCalls (demoPaired\<lparr>trace := trace demoPaired @
                    [YPutTransaction (idsId demoPairedIds) (updateFields demoTransaction)]\<rparr>)
          (snd (reconcile demoPlatform demoEnv ?rm demoTransaction demoAccount demoPaired))
        = [YPutTransaction ''yt2'' [(''cleared'', JStr ''cleared'')]]"
    by (simp add: split_beta demoPairedIds_def demoTransaction_def)
  then show ?thesis
    by (simp only: after)
       (simp add: demoRemote_answers demoPairedIds_def demoTransaction_def updateFields_def
          clearedOf_def demoPaired_def initialState_def)
qed

subsection \<open>The two skip rules\<close>

lemma webhookBranch_event:
  assumes ev: "transactionEvent pf env request account tid"
    and fetch: "answerUpTransaction rm (trace s) (UpGetTransaction account tid) = Inr t"
  shows "webhookBranch pf env rm request s =
     (let s1 = s\<lparr>trace := trace s @ [UpGetTransaction account tid]\<rparr> in
      if truthy (transferAccount t) \<and> 0 < valueInBaseUnits (amount t) then (Inr Skipped, s1)
      else
        let c = UpGetAccount account (txAccountId t);
            s2 = s1\<lparr>trace := trace s1 @ [c]\<rparr>
        in case answerUpAccount rm (trace s1) c of
             Inl e \<Rightarrow> (Inl e, s2)
           | Inr a \<Rightarrow>
               if ownershipType a = JOINT \<and> account = Secondary then (Inr Skipped, s2)
               else (case reconcile pf env rm t a s2 of
                       (Inl e, s3) \<Rightarrow> (Inl e, s3)
                     | (Inr ids, s3) \<Rightarrow> (Inr (Reconciled ids), s3)))"
  using ev fetch
  by (auto simp: transactionEvent_def webhookBranch_def Let_def bindM_def returnM_def
        getTransaction_def getUpAccount_def upFetch_def perform_def
        split: sum.splits prod.splits)

lemma webhook_of_branch:
  "webhook pf env rm request s =
     (case webhookBranch pf env rm request s of
        (Inl e, s') \<Rightarrow> (Inl e, s')
      | (Inr b, s') \<Rightarrow> (Inr (responseOf b), s'))"
  by (simp add: webhook_def bindM_def returnM_def split: prod.splits sum.splits)

lemma responseOf_skipped: "(responseOf b = \<lparr>status = 200, respBody = None\<rparr>) = (b = Skipped)"
  by (cases b) auto

lemma sends_any_updateKnown: "stepsM (sends (\<lambda>c. True)) (updateKnown rm t ids)"
  by (rule stepsM_updateKnown[OF upheld_sends]) simp_all

lemma sends_any_createNew: "stepsM (sends (\<lambda>c. True)) (createNew pf env rm t a)"
  by (rule stepsM_createNew[OF upheld_sends]) simp_all

lemma sends_any_reconcile: "stepsM (sends (\<lambda>c. True)) (reconcile pf env rm t a)"
  by (rule stepsM_reconcile[OF upheld_sends]) simp_all

lemma getTransactionFromImportId_miss:
  assumes "entries (transactions s) k = None"
    and "getTransactionFromImportId pf rm k d s = (x, sa)"
  shows "\<exists>dt kn. trace sa = trace s @ [YGetTransactions dt kn]"
  using assms
  by (auto simp: getTransactionFromImportId_def Let_def split: sum.splits)

lemma resolve_first_call:
  assumes "resolve pf env rm t a s = (r, s1)"
  shows "\<exists>c cs. trace s1 = trace s @ c # cs \<and> isYnabCall c"
proof (cases "entries (transactions s) (importIdOf (txId t))")
  case (Some ids)
  from assms show ?thesis by (simp add: resolve_hit[OF Some]) auto
next
  case None
  obtain x sa where look:
    "getTransactionFromImportId pf rm (importIdOf (txId t)) (Some (createdAt t)) s = (x, sa)"
    by (cases "getTransactionFromImportId pf rm (importIdOf (txId t)) (Some (createdAt t)) s")
  from getTransactionFromImportId_miss[OF None look]
  obtain dt kn where sa: "trace sa = trace s @ [YGetTransactions dt kn]" by blast
  have "sends (\<lambda>c. True) sa s1"
  proof (cases x)
    case (Inl e)
    with assms look show ?thesis by (simp add: resolve_def bindM_def sends_refl)
  next
    case (Inr found)
    show ?thesis
    proof (cases found)
      case None
      with Inr assms look have "createNew pf env rm t a sa = (r, s1)"
        by (simp add: resolve_def bindM_def)
      with sends_any_createNew show ?thesis by (simp add: stepsM_def)
    next
      case (Some ids)
      with Inr assms look have "updateKnown rm t ids sa = (r, s1)"
        by (simp add: resolve_def bindM_def)
      with sends_any_updateKnown show ?thesis by (simp add: stepsM_def)
    qed
  qed
  with sa show ?thesis by (auto simp: sends_def)
qed

lemma reconcile_first_call:
  assumes "reconcile pf env rm t a s = (r, s2)"
  shows "filter isYnabCall (newCalls s s2) \<noteq> []"
proof -
  obtain x s1 where res: "resolve pf env rm t a s = (x, s1)"
    by (cases "resolve pf env rm t a s")
  from resolve_first_call[OF res]
  obtain c cs where c: "trace s1 = trace s @ c # cs" "isYnabCall c" by blast
  have "sends (\<lambda>c. True) s1 s2"
  proof (cases x)
    case (Inl e)
    with assms res show ?thesis by (simp add: reconcile_def bindM_def sends_refl)
  next
    case (Inr ids)
    with res have "resolve pf env rm t a s = (Inr ids, s1)" by simp
    from reconcile_after_resolve[OF this] assms show ?thesis
      by (auto simp: sends_def split: if_splits)
  qed
  with c show ?thesis by (auto simp: sends_def newCalls_def)
qed


lemma demo_event:
  "transactionEvent demoPlatform demoEnv (demoRequest ''primary'' ''s1'') Primary ''t1''"
  "transactionEvent demoPlatform demoEnv (demoRequest ''secondary'' ''s2'') Secondary ''t1''"
  by (simp_all add: transactionEvent_def demoPlatform_def demoEnv_def demoRequest_def
        selector_def validateWebhookSignature_def)

text \<open>
  C2, as the code has it. For a created or settled event whose transaction the source
  ledger returns, the handler answers 200 without a body, its early return, exactly when
  the transaction has a transfer account and a positive amount in base units, or its
  account is returned as joint and the connection is the secondary one. An early return
  leaves both caches as they were and sends nothing to the destination ledger. The credit
  side of a transfer is always returned early, before the account is fetched; and every
  success that is not an early return has sent a request to the destination ledger.
\<close>

theorem skipped_iff_transfer_credit_or_joint_on_secondary:
  assumes ev: "transactionEvent pf env request account tid"
    and fetch: "answerUpTransaction rm (trace s) (UpGetTransaction account tid) = Inr t"
  shows "((fst (webhook pf env rm request s) = Inr \<lparr>status = 200, respBody = None\<rparr>)
           = (truthy (transferAccount t) \<and> 0 < valueInBaseUnits (amount t)
              \<or> (\<exists>a. answerUpAccount rm (trace s @ [UpGetTransaction account tid])
                         (UpGetAccount account (txAccountId t)) = Inr a
                     \<and> ownershipType a = JOINT \<and> account = Secondary)))
       \<and> (fst (webhook pf env rm request s) = Inr \<lparr>status = 200, respBody = None\<rparr> \<longrightarrow>
            accounts (snd (webhook pf env rm request s)) = accounts s
            \<and> transactions (snd (webhook pf env rm request s)) = transactions s
            \<and> filter isYnabCall (newCalls s (snd (webhook pf env rm request s))) = [])
       \<and> (truthy (transferAccount t) \<and> 0 < valueInBaseUnits (amount t) \<longrightarrow>
            webhook pf env rm request s
              = (Inr \<lparr>status = 200, respBody = None\<rparr>,
                 s\<lparr>trace := trace s @ [UpGetTransaction account tid]\<rparr>))
       \<and> (\<forall>resp. fst (webhook pf env rm request s) = Inr resp \<and> respBody resp \<noteq> None \<longrightarrow>
            filter isYnabCall (newCalls s (snd (webhook pf env rm request s))) \<noteq> [])"
proof -
  let ?s1 = "s\<lparr>trace := trace s @ [UpGetTransaction account tid]\<rparr>"
  let ?c = "UpGetAccount account (txAccountId t)"
  let ?s2 = "?s1\<lparr>trace := trace ?s1 @ [?c]\<rparr>"
  note br = webhookBranch_event[OF ev fetch]
  show ?thesis
  proof (cases "truthy (transferAccount t) \<and> 0 < valueInBaseUnits (amount t)")
    case True
    then have "webhookBranch pf env rm request s = (Inr Skipped, ?s1)"
      by (simp add: br Let_def)
    then show ?thesis using True by (simp add: webhook_of_branch newCalls_def)
  next
    case False
    then have nc: "(truthy (transferAccount t) \<and> 0 < valueInBaseUnits (amount t)) = False"
      by simp
    show ?thesis
    proof (cases "answerUpAccount rm (trace ?s1) ?c")
      case (Inl e)
      then have "webhookBranch pf env rm request s = (Inl e, ?s2)"
        by (simp add: br Let_def nc)
      then show ?thesis using False Inl by (simp add: webhook_of_branch)
    next
      case (Inr a)
      show ?thesis
      proof (cases "ownershipType a = JOINT \<and> account = Secondary")
        case True
        with Inr have "webhookBranch pf env rm request s = (Inr Skipped, ?s2)"
          by (simp add: br Let_def nc)
        then show ?thesis using False Inr True by (auto simp: webhook_of_branch newCalls_def)
      next
        case nj: False
        obtain r s3 where rec: "reconcile pf env rm t a ?s2 = (r, s3)"
          by (cases "reconcile pf env rm t a ?s2")
        from reconcile_first_call[OF rec] have "filter isYnabCall (newCalls ?s2 s3) \<noteq> []" .
        moreover from sends_any_reconcile rec have "sends (\<lambda>c. True) ?s2 s3"
          by (simp add: stepsM_def)
        ultimately have calls: "filter isYnabCall (newCalls s s3) \<noteq> []"
          by (auto simp: sends_def newCalls_def)
        from nj have nj': "(ownershipType a = JOINT \<and> account = Secondary) = False"
          by simp
        from Inr rec
        have "webhookBranch pf env rm request s
                = (case r of Inl e \<Rightarrow> Inl e | Inr ids \<Rightarrow> Inr (Reconciled ids), s3)"
          by (simp add: br Let_def nc nj' split: sum.splits)
        then show ?thesis using False Inr nj calls
          by (auto simp: webhook_of_branch split: sum.splits)
      qed
    qed
  qed
qed

theorem skipped_iff_transfer_credit_or_joint_on_secondary_witness:
  "webhook demoPlatform demoEnv (demoRemote demoCredit demoAccount True [])
      (demoRequest ''primary'' ''s1'') initialState
     = (Inr \<lparr>status = 200, respBody = None\<rparr>,
        initialState\<lparr>trace := [UpGetTransaction Primary ''t1'']\<rparr>)"
proof -
  let ?rm = "demoRemote demoCredit demoAccount True []"
  have fetch: "answerUpTransaction ?rm (trace initialState) (UpGetTransaction Primary ''t1'')
                 = Inr demoCredit"
    by (simp add: demoRemote_answers)
  have credit: "truthy (transferAccount demoCredit) \<and> 0 < valueInBaseUnits (amount demoCredit)"
    by (simp add: demoCredit_def)
  from skipped_iff_transfer_credit_or_joint_on_secondary[OF demo_event(1) fetch] credit
  show ?thesis by (simp add: initialState_def)
qed

text \<open>
  The claim C2 as stated fails: a transaction with no transfer account is skipped all the
  same when its account is joint and the event arrives on the secondary connection.
\<close>

theorem joint_event_on_secondary_without_transfer_is_skipped:
  "transferAccount demoTransaction = None
   \<and> webhook demoPlatform demoEnv (demoRemote demoTransaction demoJoint True [])
        (demoRequest ''secondary'' ''s2'') initialState
       = (Inr \<lparr>status = 200, respBody = None\<rparr>,
          initialState\<lparr>trace := [UpGetTransaction Secondary ''t1'',
                                  UpGetAccount Secondary ''a1'']\<rparr>)"
proof -
  let ?rm = "demoRemote demoTransaction demoJoint True []"
  have fetch: "answerUpTransaction ?rm (trace initialState) (UpGetTransaction Secondary ''t1'')
                 = Inr demoTransaction"
    by (simp add: demoRemote_answers)
  show ?thesis
    by (simp add: webhook_of_branch webhookBranch_event[OF demo_event(2) fetch] Let_def
          demoRemote_answers)
       (simp add: demoTransaction_def demoJoint_def demoAccount_def initialState_def)
qed

subsection \<open>Joint accounts\<close>

text \<open>
  C5, as the code has it. For a created or settled event whose transaction and owning
  account the source ledger returns: when the account is joint and the event arrives on
  the secondary connection the handler answers success, reconciles nothing, sends
  nothing to the destination ledger and leaves the caches alone. When the account is
  not joint, or the connection is the primary one, the joint rule skips nothing: unless
  the transaction is the credit side of a transfer (the other skip rule, which comes
  first), the handler runs the reconciliation of that transaction and that account.
\<close>

theorem joint_account_is_reconciled_on_primary_only:
  assumes ev: "transactionEvent pf env request account tid"
    and fetch: "answerUpTransaction rm (trace s) (UpGetTransaction account tid) = Inr t"
    and acct: "answerUpAccount rm (trace s @ [UpGetTransaction account tid])
                 (UpGetAccount account (txAccountId t)) = Inr a"
  shows "(ownershipType a = JOINT \<and> account = Secondary \<longrightarrow>
            fst (webhook pf env rm request s) = Inr \<lparr>status = 200, respBody = None\<rparr>
            \<and> fst (webhookBranch pf env rm request s) = Inr Skipped
            \<and> accounts (snd (webhook pf env rm request s)) = accounts s
            \<and> transactions (snd (webhook pf env rm request s)) = transactions s
            \<and> filter isYnabCall (newCalls s (snd (webhook pf env rm request s))) = [])
       \<and> (\<not> (truthy (transferAccount t) \<and> 0 < valueInBaseUnits (amount t))
            \<and> (ownershipType a \<noteq> JOINT \<or> account = Primary) \<longrightarrow>
            webhookBranch pf env rm request s
              = (case reconcile pf env rm t a
                        (s\<lparr>trace := trace s @ [UpGetTransaction account tid,
                                                 UpGetAccount account (txAccountId t)]\<rparr>) of
                   (Inl e, s3) \<Rightarrow> (Inl e, s3)
                 | (Inr ids, s3) \<Rightarrow> (Inr (Reconciled ids), s3))
            \<and> fst (webhookBranch pf env rm request s) \<noteq> Inr Skipped
            \<and> filter isYnabCall (newCalls s (snd (webhook pf env rm request s))) \<noteq> [])"
proof -
  let ?s1 = "s\<lparr>trace := trace s @ [UpGetTransaction account tid]\<rparr>"
  let ?c = "UpGetAccount account (txAccountId t)"
  let ?s2 = "s\<lparr>trace := trace s @ [UpGetTransaction account tid, ?c]\<rparr>"
  note br = webhookBranch_event[OF ev fetch]
  have joint: ?thesis if j: "ownershipType a = JOINT \<and> account = Secondary"
  proof -
    have "webhookBranch pf env rm request s = (Inr Skipped, ?s1)
          \<or> webhookBranch pf env rm request s = (Inr Skipped, ?s2)"
      using j acct by (simp add: br Let_def)
    then show ?thesis using j
      by (auto simp: webhook_of_branch newCalls_def)
  qed
  have other: ?thesis
    if nc: "\<not> (truthy (transferAccount t) \<and> 0 < valueInBaseUnits (amount t))"
      and nj: "ownershipType a \<noteq> JOINT \<or> account = Primary"
      and nj2: "\<not> (ownershipType a = JOINT \<and> account = Secondary)"
  proof -
    from nc have nc': "(truthy (transferAccount t) \<and> 0 < valueInBaseUnits (amount t)) = False"
      by simp
    from nj2 have nj': "(ownershipType a = JOINT \<and> account = Secondary) = False" by simp
    obtain r s3 where rec: "reconcile pf env rm t a ?s2 = (r, s3)"
      by (cases "reconcile pf env rm t a ?s2")
    from reconcile_first_call[OF rec] have "filter isYnabCall (newCalls ?s2 s3) \<noteq> []" .
    moreover from sends_any_reconcile rec have "sends (\<lambda>c. True) ?s2 s3"
      by (simp add: stepsM_def)
    ultimately have calls: "filter isYnabCall (newCalls s s3) \<noteq> []"
      by (auto simp: sends_def newCalls_def)
    have "webhookBranch pf env rm request s
            = (case reconcile pf env rm t a ?s2 of
                 (Inl e, s3) \<Rightarrow> (Inl e, s3)
               | (Inr ids, s3) \<Rightarrow> (Inr (Reconciled ids), s3))"
      using acct by (simp add: br Let_def nc' nj')
    then show ?thesis using rec calls nj2
      by (auto simp: webhook_of_branch split: sum.splits)
  qed
  show ?thesis
  proof (cases "ownershipType a = JOINT \<and> account = Secondary")
    case True
    then show ?thesis by (rule joint)
  next
    case False
    show ?thesis
    proof (cases "\<not> (truthy (transferAccount t) \<and> 0 < valueInBaseUnits (amount t))
                  \<and> (ownershipType a \<noteq> JOINT \<or> account = Primary)")
      case True
      then show ?thesis using other False by blast
    next
      case nt: False
      with False show ?thesis by blast
    qed
  qed
qed

theorem joint_account_is_reconciled_on_primary_only_witness:
  "webhook demoPlatform demoEnv (demoRemote demoTransaction demoJoint True [])
      (demoRequest ''secondary'' ''s2'') initialState
     = (Inr \<lparr>status = 200, respBody = None\<rparr>,
        initialState\<lparr>trace := [UpGetTransaction Secondary ''t1'',
                                UpGetAccount Secondary ''a1'']\<rparr>)
   \<and> fst (webhookBranch demoPlatform demoEnv (demoRemote demoTransaction demoJoint True [])
            (demoRequest ''primary'' ''s1'') initialState) \<noteq> Inr Skipped"
proof -
  let ?rm = "demoRemote demoTransaction demoJoint True []"
  have f2: "answerUpTransaction ?rm (trace initialState) (UpGetTransaction Secondary ''t1'')
              = Inr demoTransaction"
    and f1: "answerUpTransaction ?rm (trace initialState) (UpGetTransaction Primary ''t1'')
              = Inr demoTransaction"
    by (simp_all add: demoRemote_answers)
  have a2: "answerUpAccount ?rm (trace initialState @ [UpGetTransaction Secondary ''t1''])
              (UpGetAccount Secondary (txAccountId demoTransaction)) = Inr demoJoint"
    and a1: "answerUpAccount ?rm (trace initialState @ [UpGetTransaction Primary ''t1''])
              (UpGetAccount Primary (txAccountId demoTransaction)) = Inr demoJoint"
    by (simp_all add: demoRemote_answers)
  have j: "ownershipType demoJoint = JOINT" by (simp add: demoJoint_def)
  have d: "\<not> (truthy (transferAccount demoTransaction)
               \<and> 0 < valueInBaseUnits (amount demoTransaction))"
    by (simp add: demoTransaction_def)
  from joint_account_is_reconciled_on_primary_only[OF demo_event(2) f2 a2] j
  have "fst (webhook demoPlatform demoEnv ?rm (demoRequest ''secondary'' ''s2'') initialState)
          = Inr \<lparr>status = 200, respBody = None\<rparr>" by simp
  moreover
  have "snd (webhook demoPlatform demoEnv ?rm (demoRequest ''secondary'' ''s2'') initialState)
          = initialState\<lparr>trace := [UpGetTransaction Secondary ''t1'',
                                     UpGetAccount Secondary ''a1'']\<rparr>"
    by (simp add: webhook_of_branch webhookBranch_event[OF demo_event(2) f2] Let_def
          demoRemote_answers)
       (simp add: demoTransaction_def demoJoint_def demoAccount_def initialState_def)
  moreover
  have pre: "\<not> (truthy (transferAccount demoTransaction)
                   \<and> 0 < valueInBaseUnits (amount demoTransaction))
             \<and> (ownershipType demoJoint \<noteq> JOINT \<or> Primary = Primary)"
    using d by simp
  note on_primary = joint_account_is_reconciled_on_primary_only
                      [OF demo_event(1) f1 a1, THEN conjunct2, rule_format, OF pre]
  have "fst (webhookBranch demoPlatform demoEnv ?rm (demoRequest ''primary'' ''s1'') initialState)
          \<noteq> Inr Skipped"
    by (rule on_primary[THEN conjunct2, THEN conjunct1])
  ultimately show ?thesis by (simp add: prod_eq_iff)
qed

text \<open>
  The claim C5 as stated fails: an event of a joint account that arrives on the primary
  connection is not reconciled when it is the credit side of a transfer.
\<close>

theorem joint_transfer_credit_on_primary_is_not_reconciled:
  "ownershipType demoJoint = JOINT
   \<and> webhook demoPlatform demoEnv (demoRemote demoCredit demoJoint True [])
        (demoRequest ''primary'' ''s1'') initialState
       = (Inr \<lparr>status = 200, respBody = None\<rparr>,
          initialState\<lparr>trace := [UpGetTransaction Primary ''t1'']\<rparr>)"
proof -
  let ?rm = "demoRemote demoCredit demoJoint True []"
  have fetch: "answerUpTransaction ?rm (trace initialState) (UpGetTransaction Primary ''t1'')
                 = Inr demoCredit"
    by (simp add: demoRemote_answers)
  show ?thesis
    by (simp add: webhook_of_branch webhookBranch_event[OF demo_event(1) fetch] Let_def)
       (simp add: demoCredit_def demoJoint_def initialState_def)
qed

subsection \<open>The sync window\<close>

lemma window_refreshes: "window s (refreshes xs s)"
proof (induction xs arbitrary: s)
  case Nil
  show ?case by (simp add: window_refl)
next
  case (Cons x xs)
  obtain pf rm k d where x: "x = (pf, rm, k, d)" by (cases x)
  have "window s (snd (getTransactionFromImportId pf rm k d s))"
    using window_getTransactionFromImportId[of pf rm k d]
    by (simp add: stepsM_def) (metis prod.collapse)
  with Cons.IH show ?case unfolding x by (auto intro: window_trans)
qed

lemma window_deliveries: "window s (deliveries ds s)"
proof (induction ds arbitrary: s)
  case Nil
  show ?case by (simp add: window_refl)
next
  case (Cons x ds)
  obtain pf env rm request where x: "x = (pf, env, rm, request)" by (cases x)
  have "window s (snd (webhook pf env rm request s))"
    using stepsM_webhook[OF upheld_window, of pf env rm request]
    by (simp add: stepsM_def) (metis prod.collapse)
  with Cons.IH show ?case unfolding x by (auto intro: window_trans)
qed

lemma refresh_with_window:
  assumes run: "getTransactionFromImportId pf rm k d s = (r, s')"
    and w: "sinceDate (transactions s) = Some (Date w)"
  shows "\<exists>w'. sinceDate (transactions s') = Some (Date w') \<and> w' \<le> w
           \<and> (w' < w \<longrightarrow> d = Some (Date w') \<and> (\<exists>dt. newCalls s s' = [YGetTransactions dt 0]))
           \<and> (\<not> (\<exists>x. d = Some (Date x) \<and> x < w) \<longrightarrow>
                newCalls s s' = []
                \<or> (\<exists>dt. newCalls s s'
                          = [YGetTransactions dt (lastKnowledgeOfServer (transactions s))]))"
proof (cases "entries (transactions s) k")
  case (Some v)
  with run w show ?thesis by (simp add: getTransactionFromImportId_def newCalls_def)
next
  case None
  show ?thesis
  proof (cases "\<exists>x. d = Some (Date x) \<and> x < w")
    case True
    then obtain x where x: "d = Some (Date x)" "x < w" by blast
    with run w None show ?thesis
      by (auto simp: getTransactionFromImportId_def Let_def newCalls_def split: sum.splits)
  next
    case False
    then have "(case d of None \<Rightarrow> None
                | Some x \<Rightarrow> if date_lt x (Date w) then Some x else None) = None"
      by (cases d) (auto split: jsdate.splits elim: date_lt.elims)
    with run w None False show ?thesis
      by (auto simp: getTransactionFromImportId_def Let_def newCalls_def split: sum.splits)
  qed
qed

lemma first_refresh:
  assumes run: "getTransactionFromImportId pf rm k d s = (Inr x, s')"
    and w: "sinceDate (transactions s) = None"
    and miss: "entries (transactions s) k = None"
  shows "sinceDate (transactions s')
           = Some (case d of
                     None \<Rightarrow> todayOffset pf (- 4) True
                   | Some y \<Rightarrow> if date_lt y (todayOffset pf (- 4) True) then y
                               else todayOffset pf (- 4) True)"
  using assms
  by (cases d) (auto simp: getTransactionFromImportId_def Let_def split: sum.splits)

lemma getAccount_cursor:
  assumes "getAccount rm k s = (r, s')"
  shows "sinceDate (accounts s') = sinceDate (accounts s)
       \<and> (newCalls s s' = []
          \<or> newCalls s s' = [YGetAccounts (lastKnowledgeOfServer (accounts s))])"
  using assms
  by (auto simp: getAccount_def Let_def newCalls_def split: if_splits sum.splits)


lemma window_dated:
  assumes "window s s'" and "sinceDate (transactions s) = Some (Date w)"
  shows "\<exists>w'. sinceDate (transactions s') = Some (Date w') \<and> w' \<le> w"
  using assms
  by (cases "(sinceDate (transactions s), sinceDate (transactions s'))" rule: notLater.cases)
     (auto simp: window_def)

lemma refresh_halves:
  "getTransactionFromImportId pf rm k d s =
     (case refreshBegin pf k d s of
        (None, s1) \<Rightarrow> (Inr (entries (transactions s) k), s1)
      | (Some p, s1) \<Rightarrow> refreshEnd p (answerTransactions rm (trace s) (pendCall p)) s1)"
  by (simp add: getTransactionFromImportId_def refreshBegin_def refreshEnd_def Let_def
        split: sum.splits)

text \<open>
  C4, as the code has it. Over any sequence of lookups in the transaction cache that do
  not overlap, and over any sequence of webhook deliveries that do not overlap, a window
  start that is set stays set and never moves later; the account cache has no window at
  all. One lookup moves the start to an earlier date only when the date supplied by the
  caller is earlier, and then the query it sends carries the change token 0; when the
  supplied date is not earlier, a query, if one is sent, carries the remembered token.
  The first successful refresh sets the start to the default, the local start of the day
  four calendar days before the clock, or to the supplied date when that is earlier. A
  refresh of the account cache always sends the remembered token.
\<close>

theorem sync_window_never_moves_later_without_overlap:
  "(\<forall>w. sinceDate (transactions s) = Some (Date w) \<longrightarrow>
         (\<exists>w'. sinceDate (transactions (refreshes xs s)) = Some (Date w') \<and> w' \<le> w)
       \<and> (\<exists>w'. sinceDate (transactions (deliveries ds s)) = Some (Date w') \<and> w' \<le> w))
   \<and> sinceDate (accounts (deliveries ds s)) = sinceDate (accounts s)
   \<and> (getTransactionFromImportId pf rm k d s = (r, s')
        \<and> sinceDate (transactions s) = Some (Date v) \<longrightarrow>
        (\<exists>v'. sinceDate (transactions s') = Some (Date v') \<and> v' \<le> v
           \<and> (v' < v \<longrightarrow> d = Some (Date v') \<and> (\<exists>dt. newCalls s s' = [YGetTransactions dt 0]))
           \<and> (\<not> (\<exists>x. d = Some (Date x) \<and> x < v) \<longrightarrow>
                newCalls s s' = []
                \<or> (\<exists>dt. newCalls s s'
                          = [YGetTransactions dt (lastKnowledgeOfServer (transactions s))]))))
   \<and> (getTransactionFromImportId pf rm k d s = (Inr found, s')
        \<and> sinceDate (transactions s) = None \<and> entries (transactions s) k = None \<longrightarrow>
        sinceDate (transactions s')
          = Some (case d of
                    None \<Rightarrow> todayOffset pf (- 4) True
                  | Some y \<Rightarrow> if date_lt y (todayOffset pf (- 4) True) then y
                              else todayOffset pf (- 4) True))
   \<and> todayOffset pf (- 4) True = Date (startOfLocalDay pf (addLocalDays pf (now pf) (- 4)))
   \<and> (getAccount rm k s = (q, s'') \<longrightarrow>
        sinceDate (accounts s'') = sinceDate (accounts s)
        \<and> (newCalls s s'' = []
           \<or> newCalls s s'' = [YGetAccounts (lastKnowledgeOfServer (accounts s))]))"
proof (intro conjI allI impI)
  fix w assume "sinceDate (transactions s) = Some (Date w)"
  then show "\<exists>w'. sinceDate (transactions (refreshes xs s)) = Some (Date w') \<and> w' \<le> w"
    by (rule window_dated[OF window_refreshes])
next
  fix w assume "sinceDate (transactions s) = Some (Date w)"
  then show "\<exists>w'. sinceDate (transactions (deliveries ds s)) = Some (Date w') \<and> w' \<le> w"
    by (rule window_dated[OF window_deliveries])
next
  show "sinceDate (accounts (deliveries ds s)) = sinceDate (accounts s)"
    using window_deliveries[of s ds] by (simp add: window_def)
next
  assume "getTransactionFromImportId pf rm k d s = (r, s')
            \<and> sinceDate (transactions s) = Some (Date v)"
  then show "\<exists>v'. sinceDate (transactions s') = Some (Date v') \<and> v' \<le> v
           \<and> (v' < v \<longrightarrow> d = Some (Date v') \<and> (\<exists>dt. newCalls s s' = [YGetTransactions dt 0]))
           \<and> (\<not> (\<exists>x. d = Some (Date x) \<and> x < v) \<longrightarrow>
                newCalls s s' = []
                \<or> (\<exists>dt. newCalls s s'
                          = [YGetTransactions dt (lastKnowledgeOfServer (transactions s))]))"
    using refresh_with_window[of pf rm k d s r s' v] by blast
next
  assume "getTransactionFromImportId pf rm k d s = (Inr found, s')
        \<and> sinceDate (transactions s) = None \<and> entries (transactions s) k = None"
  then show "sinceDate (transactions s')
          = Some (case d of
                    None \<Rightarrow> todayOffset pf (- 4) True
                  | Some y \<Rightarrow> if date_lt y (todayOffset pf (- 4) True) then y
                              else todayOffset pf (- 4) True)"
    using first_refresh[of pf rm k d s found s'] by blast
next
  show "todayOffset pf (- 4) True = Date (startOfLocalDay pf (addLocalDays pf (now pf) (- 4)))"
    by (simp add: todayOffset_def)
next
  assume "getAccount rm k s = (q, s'')"
  then show "sinceDate (accounts s'') = sinceDate (accounts s)"
    by (simp add: getAccount_cursor)
next
  assume "getAccount rm k s = (q, s'')"
  then show "newCalls s s'' = []
           \<or> newCalls s s'' = [YGetAccounts (lastKnowledgeOfServer (accounts s))]"
    by (simp add: getAccount_cursor)
qed

theorem sync_window_never_moves_later_without_overlap_witness:
  "sinceDate (transactions
      (refreshes [(demoPlatform, demoRemote demoTransaction demoAccount True [], ''up:t9'',
                   Some (Date 432000000))] demoSynced))
     = Some (Date 432000000)
   \<and> newCalls demoSynced
        (refreshes [(demoPlatform, demoRemote demoTransaction demoAccount True [], ''up:t9'',
                     Some (Date 432000000))] demoSynced)
       = [YGetTransactions ''1970-01-10'' 0]
   \<and> newCalls demoSynced
        (refreshes [(demoPlatform, demoRemote demoTransaction demoAccount True [], ''up:t9'',
                     Some (Date 604800000))] demoSynced)
       = [YGetTransactions ''1970-01-10'' 7]
   \<and> (\<exists>w'. sinceDate (transactions
               (deliveries [(demoPlatform, demoEnv, demoRemote demoTransaction demoAccount True [],
                             demoRequest ''primary'' ''s1'')] demoSynced)) = Some (Date w')
           \<and> w' \<le> 518400000)"
proof -
  let ?rm = "demoRemote demoTransaction demoAccount True []"
  have dated: "sinceDate (transactions demoSynced) = Some (Date 518400000)"
    by (simp add: demoSynced_def)
  note spec = sync_window_never_moves_later_without_overlap
                [where s = demoSynced
                   and ds = "[(demoPlatform, demoEnv, ?rm, demoRequest ''primary'' ''s1'')]",
                 THEN conjunct1, rule_format, OF dated, THEN conjunct2]
  have 1: "sinceDate (transactions
      (refreshes [(demoPlatform, ?rm, ''up:t9'', Some (Date 432000000))] demoSynced))
     = Some (Date 432000000)"
    by (simp add: getTransactionFromImportId_def Let_def demoSynced_def initialState_def
          demoRemote_answers)
  have 2: "newCalls demoSynced
        (refreshes [(demoPlatform, ?rm, ''up:t9'', Some (Date 432000000))] demoSynced)
       = [YGetTransactions ''1970-01-10'' 0]"
    by (simp add: getTransactionFromImportId_def Let_def demoSynced_def initialState_def
          demoRemote_answers newCalls_def demoPlatform_def)
  have 3: "newCalls demoSynced
        (refreshes [(demoPlatform, ?rm, ''up:t9'', Some (Date 604800000))] demoSynced)
       = [YGetTransactions ''1970-01-10'' 7]"
    by (simp add: getTransactionFromImportId_def Let_def demoSynced_def initialState_def
          demoRemote_answers newCalls_def demoPlatform_def)
  from 1 2 3 spec show ?thesis by blast
qed

text \<open>
  The claim C4 as stated fails for refreshes that overlap, and nothing in the process
  keeps them apart. From a window that starts on day 6, a first refresh (its date is
  day 7) reads the start and suspends; a second one (its date is day 5) reads it too,
  and on its answer moves the start to day 5; the answer of the first then puts the
  start it had read, day 6, back: the start has moved later.
\<close>

theorem overlapping_refreshes_move_window_later:
  "sinceDate (transactions (snd (runSteps
      [BeginRefresh 1 demoPlatform ''up:t8'' (Some (Date 604800000)),
       BeginRefresh 2 demoPlatform ''up:t9'' (Some (Date 432000000)),
       EndRefresh 2 (Inr \<lparr>dataTransactions = [], txServerKnowledge = 8\<rparr>)]
      (Map.empty, demoSynced))))
     = Some (Date 432000000)
   \<and> sinceDate (transactions (snd (runSteps
      [BeginRefresh 1 demoPlatform ''up:t8'' (Some (Date 604800000)),
       BeginRefresh 2 demoPlatform ''up:t9'' (Some (Date 432000000)),
       EndRefresh 2 (Inr \<lparr>dataTransactions = [], txServerKnowledge = 8\<rparr>),
       EndRefresh 1 (Inr \<lparr>dataTransactions = [], txServerKnowledge = 9\<rparr>)]
      (Map.empty, demoSynced))))
     = Some (Date 518400000)"
  by (simp add: refreshBegin_def refreshEnd_def Let_def demoSynced_def initialState_def
        emptyCache_def)

subsection \<open>Provisioning a webhook\<close>











subsection \<open>Delivering an event twice\<close>

lemma importIdOf_not_empty: "importIdOf i \<noteq> []"
  by (simp add: importIdOf_filter)

lemma createTransaction_echo:
  assumes "echoesImportId rm" and "map_of p ''import_id'' = Some (JStr k)" and "k \<noteq> []"
    and "createTransaction rm p s = (Inr ids, s')"
  shows "entries (transactions s') k = Some ids"
proof -
  from assms(4) obtain j where j: "answerNewTransaction rm (trace s) (YPostTransaction p) = Inr j"
    and ids: "ids = idsOf j"
    and s': "s' = (case tjImportId j of
                     None \<Rightarrow> s\<lparr>trace := trace s @ [YPostTransaction p]\<rparr>
                   | Some i \<Rightarrow>
                       if i = [] then s\<lparr>trace := trace s @ [YPostTransaction p]\<rparr>
                       else (s\<lparr>trace := trace s @ [YPostTransaction p]\<rparr>)
                              \<lparr>transactions := cacheSet i (idsOf j) (transactions s)\<rparr>)"
    by (auto simp: createTransaction_def bindM_def perform_def Let_def
          split: sum.splits option.splits if_splits)
  from assms(1) j assms(2) have "tjImportId j = Some k"
    unfolding echoesImportId_def by blast
  with s' ids assms(3) show ?thesis by (simp add: cacheSet_def)
qed

lemma createNew_caches:
  assumes echo: "echoesImportId rm"
    and run: "createNew pf env rm t a s = (Inr ids, s')"
  shows "entries (transactions s') (importIdOf (txId t)) = Some ids"
proof -
  from run obtain p sa where p: "createTransaction rm p sa = (Inr ids, s')"
    and m: "map_of p ''import_id'' = Some (JStr (importIdOf (txId t)))"
    by (auto simp: createNew_def bindM_def returnM_def newFields_def
          split: sum.splits prod.splits option.splits if_splits)
  from createTransaction_echo[OF echo m importIdOf_not_empty p] show ?thesis .
qed

lemma getTransactionFromImportId_result:
  "getTransactionFromImportId pf rm k d s = (Inr f, sa) \<Longrightarrow> entries (transactions sa) k = f"
  by (auto simp: getTransactionFromImportId_def Let_def split: if_splits sum.splits)

lemma updateKnown_run:
  "updateKnown rm t ids s
     = (Inr ids, s\<lparr>trace := trace s @ [YPutTransaction (idsId ids) (updateFields t)]\<rparr>)"
  by (simp add: updateKnown_def bindM_def notAwaited_def updateTransaction_def perform_def
        removeEmpty_updateFields returnM_def)

lemma resolve_caches:
  assumes echo: "echoesImportId rm"
    and run: "resolve pf env rm t a s = (Inr ids, s1)"
  shows "entries (transactions s1) (importIdOf (txId t)) = Some ids"
proof -
  obtain x sa where look:
    "getTransactionFromImportId pf rm (importIdOf (txId t)) (Some (createdAt t)) s = (x, sa)"
    by (cases "getTransactionFromImportId pf rm (importIdOf (txId t)) (Some (createdAt t)) s")
  show ?thesis
  proof (cases x)
    case (Inl e)
    with run look show ?thesis by (simp add: resolve_def bindM_def)
  next
    case (Inr found)
    show ?thesis
    proof (cases found)
      case None
      with Inr run look have "createNew pf env rm t a sa = (Inr ids, s1)"
        by (simp add: resolve_def bindM_def)
      from createNew_caches[OF echo this] show ?thesis .
    next
      case (Some i)
      with Inr look have "entries (transactions sa) (importIdOf (txId t)) = Some i"
        using getTransactionFromImportId_result by blast
      moreover from Some Inr run look have "updateKnown rm t i sa = (Inr ids, s1)"
        by (simp add: resolve_def bindM_def)
      ultimately show ?thesis by (auto simp: updateKnown_run)
    qed
  qed
qed

lemma reconcile_caches:
  assumes echo: "echoesImportId rm"
    and run: "reconcile pf env rm t a s = (Inr ids, s2)"
  shows "entries (transactions s2) (importIdOf (txId t)) = Some ids"
proof -
  obtain x s1 where res: "resolve pf env rm t a s = (x, s1)"
    by (cases "resolve pf env rm t a s")
  show ?thesis
  proof (cases x)
    case (Inl e)
    with run res show ?thesis by (simp add: reconcile_def bindM_def)
  next
    case (Inr i)
    with res have r: "resolve pf env rm t a s = (Inr i, s1)" by simp
    from run have "i = ids \<and> transactions s2 = transactions s1"
      unfolding reconcile_after_resolve[OF r] by (auto split: if_splits sum.splits)
    with resolve_caches[OF echo r] show ?thesis by simp
  qed
qed

lemma webhookBranch_event_failed:
  assumes ev: "transactionEvent pf env request account tid"
    and fetch: "answerUpTransaction rm (trace s) (UpGetTransaction account tid) = Inl e"
  shows "webhookBranch pf env rm request s
           = (Inl e, s\<lparr>trace := trace s @ [UpGetTransaction account tid]\<rparr>)"
  using ev fetch
  by (auto simp: transactionEvent_def webhookBranch_def Let_def bindM_def
        getTransaction_def upFetch_def perform_def split: sum.splits)

lemma reconciled_caches:
  assumes ev: "transactionEvent pf env request account tid"
    and same: "\<forall>t. answerUpTransaction rm (trace s) (UpGetTransaction account tid) = Inr t
                 \<longrightarrow> txId t = tid"
    and echo: "echoesImportId rm"
    and run: "webhookBranch pf env rm request s = (Inr (Reconciled ids), s1)"
  shows "entries (transactions s1) (importIdOf tid) = Some ids"
proof (cases "answerUpTransaction rm (trace s) (UpGetTransaction account tid)")
  case (Inl e)
  from run show ?thesis unfolding webhookBranch_event_failed[OF ev Inl] by simp
next
  case (Inr t)
  with same have tid: "txId t = tid" by blast
  from run obtain a s0 where "reconcile pf env rm t a s0 = (Inr ids, s1)"
    unfolding webhookBranch_event[OF ev Inr]
    by (auto simp: Let_def split: if_splits sum.splits prod.splits)
  from reconcile_caches[OF echo this] tid show ?thesis by simp
qed


lemma reconcile_known:
  assumes known: "entries (transactions s) (importIdOf (txId t)) = Some ids"
  shows "reconcile pf env rm t a s =
           (let put = YPutTransaction (idsId ids) (updateFields t);
                clr = YPutTransaction (orEmpty (transfer_transaction_id ids))
                        [(''cleared'', JStr ''cleared'')]
            in if truthy (transfer_transaction_id ids) \<and> isSettled t
               then (case answerPut rm (trace s @ [put]) clr of
                       Inl e \<Rightarrow> Inl e | Inr u \<Rightarrow> Inr ids,
                     s\<lparr>trace := trace s @ [put, clr]\<rparr>)
               else (Inr ids, s\<lparr>trace := trace s @ [put]\<rparr>))"
  by (simp add: reconcile_after_resolve[OF resolve_hit[OF known]] Let_def)

lemma redelivery:
  assumes ev: "transactionEvent pf env request account tid"
    and same: "\<forall>t. answerUpTransaction rm (trace s) (UpGetTransaction account tid) = Inr t
                 \<longrightarrow> txId t = tid"
    and known: "entries (transactions s) (importIdOf tid) = Some ids"
    and run: "webhookBranch pf env rm request s = (r, s')"
  shows "transactions s' = transactions s \<and> accounts s' = accounts s
       \<and> \<not> list_ex isCreateTransaction (newCalls s s')
       \<and> (filter isYnabCall (newCalls s s') = []
          \<or> (\<exists>t. filter isYnabCall (newCalls s s') = knownUpdateCalls ids t))
       \<and> (\<forall>ids2. r = Inr (Reconciled ids2) \<longrightarrow> ids2 = ids)"
proof (cases "answerUpTransaction rm (trace s) (UpGetTransaction account tid)")
  case (Inl e)
  from run show ?thesis
    unfolding webhookBranch_event_failed[OF ev Inl] by (auto simp: newCalls_def)
next
  case (Inr t)
  with same have tid: "txId t = tid" by blast
  let ?s1 = "s\<lparr>trace := trace s @ [UpGetTransaction account tid]\<rparr>"
  let ?c = "UpGetAccount account (txAccountId t)"
  let ?s2 = "?s1\<lparr>trace := trace ?s1 @ [?c]\<rparr>"
  note br = webhookBranch_event[OF ev Inr]
  show ?thesis
  proof (cases "truthy (transferAccount t) \<and> 0 < valueInBaseUnits (amount t)")
    case True
    with run show ?thesis unfolding br by (auto simp: Let_def newCalls_def)
  next
    case False
    then have nc: "(truthy (transferAccount t) \<and> 0 < valueInBaseUnits (amount t)) = False"
      by simp
    show ?thesis
    proof (cases "answerUpAccount rm (trace ?s1) ?c")
      case (Inl e)
      with run show ?thesis unfolding br by (auto simp: Let_def nc newCalls_def)
    next
      case a: (Inr a)
      show ?thesis
      proof (cases "ownershipType a = JOINT \<and> account = Secondary")
        case True
        with run a show ?thesis unfolding br by (auto simp: Let_def nc newCalls_def)
      next
        case nj: False
        then have nj': "(ownershipType a = JOINT \<and> account = Secondary) = False" by simp
        have k2: "entries (transactions ?s2) (importIdOf (txId t)) = Some ids"
          using known tid by simp
        from run a have "(case reconcile pf env rm t a ?s2 of
                            (Inl e, s3) \<Rightarrow> (Inl e, s3)
                          | (Inr ids, s3) \<Rightarrow> (Inr (Reconciled ids), s3)) = (r, s')"
          unfolding br by (simp add: Let_def nc nj')
        then have fin:
          "transactions s' = transactions s \<and> accounts s' = accounts s
           \<and> \<not> list_ex isCreateTransaction (newCalls s s')
           \<and> filter isYnabCall (newCalls s s') = knownUpdateCalls ids t
           \<and> (\<forall>ids2. r = Inr (Reconciled ids2) \<longrightarrow> ids2 = ids)"
          unfolding reconcile_known[OF k2]
          by (auto simp: Let_def newCalls_def updateFields_def clearedOf_def knownUpdateCalls_def
                split: if_splits sum.splits)
        then show ?thesis by blast
      qed
    qed
  qed
qed


lemma demo_first_delivery:
  "webhookBranch demoPlatform demoEnv (demoRemote demoTransaction demoAccount e [])
      (demoRequest ''primary'' ''s1'') initialState
     = (Inr (Reconciled demoIds), demoAfterFirst e)"
proof -
  let ?rm = "demoRemote demoTransaction demoAccount e []"
  have fetch: "answerUpTransaction ?rm (trace initialState) (UpGetTransaction Primary ''t1'')
                 = Inr demoTransaction"
    by (simp add: demoRemote_answers)
  have t: "transferAccount demoTransaction = None" "txId demoTransaction = ''t1''"
    "txAccountId demoTransaction = ''a1''" "isSettled demoTransaction"
    "createdAt demoTransaction = Date 777600000" "message demoTransaction = None"
    "foreignAmount demoTransaction = None" "description demoTransaction = ''Coffee''"
    "valueInBaseUnits (amount demoTransaction) = - 1500"
    by (simp_all add: demoTransaction_def)
  have a: "acId demoAccount = ''a1''" "acType demoAccount = TRANSACTIONAL"
    "acName demoAccount = ''Spending''" "ownershipType demoAccount = INDIVIDUAL"
    by (simp_all add: demoAccount_def)
  have p: "toLocaleDateString demoPlatform d = ''1970-01-10''"
    "toTimeString demoPlatform d = ''09:15:00 GMT+0000''"
    "todayOffset demoPlatform (- 4) True = Date 518400000" for d
    by (simp_all add: demoPlatform_def todayOffset_def)
  show ?thesis
    unfolding webhookBranch_event[OF demo_event(1) fetch]
    by (simp add: Let_def t a p demoRemote_answers reconcile_def resolve_def createNew_def
          bindM_def returnM_def getTransactionFromImportId_def getAccount_def initialState_def
          emptyCache_def importIdOf_t1 createYnabAccount_def createAccount_def perform_def
          cacheSet_def newFields_def clearedOf_def memoOf_def createTransaction_def idsOf_def
          demoIds_def demoAfterFirst_def demoCreation_def)
qed


lemma demo_second_delivery_without_echo:
  "webhookBranch demoPlatform demoEnv (demoRemote demoTransaction demoAccount False [])
      (demoRequest ''primary'' ''s1'') (demoAfterFirst False)
     = (Inr (Reconciled demoIds),
        (demoAfterFirst False)\<lparr>trace := trace (demoAfterFirst False) @
           [UpGetTransaction Primary ''t1'', UpGetAccount Primary ''a1'',
            YGetTransactions ''1970-01-10'' 7, demoCreation]\<rparr>)"
proof -
  let ?rm = "demoRemote demoTransaction demoAccount False []"
  have fetch: "answerUpTransaction ?rm (trace (demoAfterFirst False))
                 (UpGetTransaction Primary ''t1'') = Inr demoTransaction"
    by (simp add: demoRemote_answers)
  have t: "transferAccount demoTransaction = None" "txId demoTransaction = ''t1''"
    "txAccountId demoTransaction = ''a1''" "isSettled demoTransaction"
    "createdAt demoTransaction = Date 777600000" "message demoTransaction = None"
    "foreignAmount demoTransaction = None" "description demoTransaction = ''Coffee''"
    "valueInBaseUnits (amount demoTransaction) = - 1500"
    by (simp_all add: demoTransaction_def)
  have a: "acId demoAccount = ''a1''" "acType demoAccount = TRANSACTIONAL"
    "acName demoAccount = ''Spending''" "ownershipType demoAccount = INDIVIDUAL"
    by (simp_all add: demoAccount_def)
  have p: "toLocaleDateString demoPlatform d = ''1970-01-10''"
    "toTimeString demoPlatform d = ''09:15:00 GMT+0000''" for d
    by (simp_all add: demoPlatform_def)
  show ?thesis
    unfolding webhookBranch_event[OF demo_event(1) fetch]
    by (simp add: Let_def t a p demoRemote_answers reconcile_def resolve_def createNew_def
          bindM_def returnM_def getTransactionFromImportId_def getAccount_def
          importIdOf_t1 perform_def
          cacheSet_def newFields_def clearedOf_def memoOf_def createTransaction_def idsOf_def
          demoIds_def demoAfterFirst_def demoCreation_def)
qed

text \<open>
  C1, as the code has it. Take a created or settled event delivered twice, the second
  time in the state the first delivery left, where the source ledger returns the
  transaction under the id that was asked for and the destination ledger echoes the
  import id of what it creates. If the first delivery reconciled the event to a
  destination transaction, then that identity is in the transaction cache under the
  import id of the event; the second delivery sends no creation; what it sends to the
  destination ledger is nothing (it was skipped or a source-ledger call failed) or the
  update of amount and clearing state of that same transaction, followed by the clearing
  of its counterpart when it has one and the transaction is settled; if it reconciles, it
  resolves to the same identity; and it changes neither cache.
\<close>

theorem redelivery_updates_and_never_creates_again:
  assumes ev1: "transactionEvent pf env request account tid"
    and ev2: "transactionEvent pf2 env2 request account tid"
    and id1: "\<forall>t. answerUpTransaction rm (trace s) (UpGetTransaction account tid) = Inr t
                \<longrightarrow> txId t = tid"
    and id2: "\<forall>t. answerUpTransaction rm2 (trace s1) (UpGetTransaction account tid) = Inr t
                \<longrightarrow> txId t = tid"
    and echo: "echoesImportId rm"
    and first: "webhookBranch pf env rm request s = (Inr (Reconciled ids1), s1)"
    and second: "webhookBranch pf2 env2 rm2 request s1 = (r2, s2)"
  shows "entries (transactions s1) (importIdOf tid) = Some ids1
       \<and> \<not> list_ex isCreateTransaction (newCalls s1 s2)
       \<and> (filter isYnabCall (newCalls s1 s2) = []
          \<or> (\<exists>t. filter isYnabCall (newCalls s1 s2) = knownUpdateCalls ids1 t))
       \<and> (\<forall>ids2. r2 = Inr (Reconciled ids2) \<longrightarrow> ids2 = ids1)
       \<and> transactions s2 = transactions s1 \<and> accounts s2 = accounts s1
       \<and> webhook pf2 env2 rm2 request s1
           = (case r2 of Inl e \<Rightarrow> Inl e | Inr b \<Rightarrow> Inr (responseOf b), s2)"
proof -
  have known: "entries (transactions s1) (importIdOf tid) = Some ids1"
    by (rule reconciled_caches[OF ev1 id1 echo first])
  have resp: "webhook pf2 env2 rm2 request s1
           = (case r2 of Inl e \<Rightarrow> Inl e | Inr b \<Rightarrow> Inr (responseOf b), s2)"
    using second by (simp add: webhook_of_branch split: sum.splits)
  from redelivery[OF ev2 id2 known second] known resp show ?thesis by simp
qed

theorem redelivery_updates_and_never_creates_again_witness:
  "webhookBranch demoPlatform demoEnv (demoRemote demoTransaction demoAccount True [])
      (demoRequest ''primary'' ''s1'') initialState
     = (Inr (Reconciled demoIds), demoAfterFirst True)
   \<and> entries (transactions (demoAfterFirst True)) ''up:t1'' = Some demoIds
   \<and> \<not> list_ex isCreateTransaction
         (newCalls (demoAfterFirst True)
            (snd (webhookBranch demoPlatform demoEnv
                    (demoRemote demoTransaction demoAccount True [])
                    (demoRequest ''primary'' ''s1'') (demoAfterFirst True))))
   \<and> newCalls (demoAfterFirst True)
        (snd (webhookBranch demoPlatform demoEnv
                (demoRemote demoTransaction demoAccount True [])
                (demoRequest ''primary'' ''s1'') (demoAfterFirst True)))
       = [UpGetTransaction Primary ''t1'', UpGetAccount Primary ''a1'',
          YPutTransaction ''yt1'' [(''amount'', JNum (- 15000)), (''cleared'', JStr ''cleared'')]]"
proof -
  let ?rm = "demoRemote demoTransaction demoAccount True []"
  let ?rq = "demoRequest ''primary'' ''s1''"
  have id: "\<forall>t. answerUpTransaction ?rm tr (UpGetTransaction Primary ''t1'') = Inr t
              \<longrightarrow> txId t = ''t1''" for tr
    by (simp add: demoRemote_answers demoTransaction_def)
  have echo: "echoesImportId ?rm"
    by (auto simp: echoesImportId_def demoRemote_answers)
  obtain r2 s2 where second:
    "webhookBranch demoPlatform demoEnv ?rm ?rq (demoAfterFirst True) = (r2, s2)"
    by (cases "webhookBranch demoPlatform demoEnv ?rm ?rq (demoAfterFirst True)")
  note spec = redelivery_updates_and_never_creates_again
                [OF demo_event(1) demo_event(1) id id echo demo_first_delivery second]
  have fetch: "answerUpTransaction ?rm (trace (demoAfterFirst True))
                 (UpGetTransaction Primary ''t1'') = Inr demoTransaction"
    by (simp add: demoRemote_answers)
  have k: "entries (transactions (demoAfterFirst True)) (importIdOf (txId demoTransaction))
             = Some demoIds"
    by (simp add: demoAfterFirst_def demoTransaction_def importIdOf_t1)
  have run: "webhookBranch demoPlatform demoEnv ?rm ?rq (demoAfterFirst True)
     = (Inr (Reconciled demoIds),
        (demoAfterFirst True)\<lparr>trace := trace (demoAfterFirst True) @
           [UpGetTransaction Primary ''t1'', UpGetAccount Primary ''a1'',
            YPutTransaction ''yt1''
              [(''amount'', JNum (- 15000)), (''cleared'', JStr ''cleared'')]]\<rparr>)"
    unfolding webhookBranch_event[OF demo_event(1) fetch]
    by (simp add: Let_def demoRemote_answers reconcile_known k)
       (simp add: demoTransaction_def demoAccount_def demoIds_def updateFields_def clearedOf_def)
  from second run have r2: "r2 = Inr (Reconciled demoIds)"
    and s2: "s2 = (demoAfterFirst True)\<lparr>trace := trace (demoAfterFirst True) @
           [UpGetTransaction Primary ''t1'', UpGetAccount Primary ''a1'',
            YPutTransaction ''yt1''
              [(''amount'', JNum (- 15000)), (''cleared'', JStr ''cleared'')]]\<rparr>"
    by simp_all
  from spec show ?thesis
    unfolding second snd_conv
    by (simp add: demo_first_delivery importIdOf_t1) (simp add: s2 newCalls_def)
qed

text \<open>
  The claim C1 as stated fails: when the destination ledger answers a creation without
  the import id, the handler does not cache the new transaction (the guard of
  \<^verbatim>\<open>createTransaction\<close>), and if the next listing does not show it either, the second
  delivery of the same event creates it again.
\<close>

theorem second_delivery_creates_again_without_echo:
  "webhook demoPlatform demoEnv (demoRemote demoTransaction demoAccount False [])
      (demoRequest ''primary'' ''s1'') initialState
     = (Inr \<lparr>status = 200, respBody = Some []\<rparr>, demoAfterFirst False)
   \<and> webhook demoPlatform demoEnv (demoRemote demoTransaction demoAccount False [])
        (demoRequest ''primary'' ''s1'') (demoAfterFirst False)
       = (Inr \<lparr>status = 200, respBody = Some []\<rparr>,
          (demoAfterFirst False)\<lparr>trace := trace (demoAfterFirst False) @
             [UpGetTransaction Primary ''t1'', UpGetAccount Primary ''a1'',
              YGetTransactions ''1970-01-10'' 7, demoCreation]\<rparr>)
   \<and> filter isCreateTransaction (trace (demoAfterFirst False)) = [demoCreation]
   \<and> isCreateTransaction demoCreation"
  by (simp add: webhook_of_branch demo_first_delivery demo_second_delivery_without_echo)
     (simp add: demoAfterFirst_def demoCreation_def)

end
